theory Spec2Isabelle
  imports Main "HOL-Library.Sublist"
begin

section \<open>Data model (src/lib/types.ts, src/lib/mock-data.ts)\<close>

text \<open>
  \<^verbatim>\<open>ShipmentStatus\<close> is the union of five string literals, \<^verbatim>\<open>User.role\<close> the union of two.
  \<^verbatim>\<open>statusId\<close> gives the string a status is written as in tags.
\<close>

datatype ShipmentStatus = PendingConfirmation | InTransit | Delivered | WithIssue | Cancelled

datatype Role = Logistics | TrackTeam

fun statusId :: "ShipmentStatus \<Rightarrow> string" where
  "statusId PendingConfirmation = ''pending-confirmation''"
| "statusId InTransit = ''in-transit''"
| "statusId Delivered = ''delivered''"
| "statusId WithIssue = ''with-issue''"
| "statusId Cancelled = ''cancelled''"

record ShipmentProduct =
  productId :: string
  units :: int

text \<open>
  The interface \<^verbatim>\<open>Shipment\<close>. The field \<^verbatim>\<open>id\<close> is \<open>id_shipment\<close> here. Optional string
  fields are options; the optional boolean \<^verbatim>\<open>isOrderConfirmed\<close> is read by the code only
  through \<^verbatim>\<open>!x\<close>, \<^verbatim>\<open>if (x)\<close> and \<^verbatim>\<open>x ?? false\<close>, where \<^verbatim>\<open>undefined\<close> and \<^verbatim>\<open>false\<close> agree, so
  it is a \<open>bool\<close>. Dates are ISO-8601 strings, as in the source.
\<close>

record Shipment =
  id_shipment :: string
  title :: string
  status :: ShipmentStatus
  products :: "ShipmentProduct list"
  estimatedDelivery :: string
  actualDelivery :: "string option"
  issueDescription :: "string option"
  origin :: string
  destination :: string
  isOrderConfirmed :: bool
  createdAt :: string
  holdedInvoiceId :: "string option"
  tags :: "string list"

text \<open>The ids of \<^verbatim>\<open>defaultShipmentStatuses\<close>, in the order of the table.\<close>

definition defaultShipmentStatuses :: "ShipmentStatus list" where
  "defaultShipmentStatuses = [PendingConfirmation, InTransit, Delivered, WithIssue, Cancelled]"

section \<open>JavaScript strings\<close>

text \<open>
  A JavaScript string is modelled as a \<open>string\<close> whose characters are the code points
  U+0000 to U+00FF. On these, \<^verbatim>\<open>\s\<close> and \<^verbatim>\<open>trim\<close> see TAB, LF, VT, FF, CR, SPACE and
  NO-BREAK SPACE, and \<^verbatim>\<open>toLowerCase\<close> moves A-Z and the Latin-1 capitals (U+00C0 to
  U+00DE without the multiplication sign U+00D7) up by 32.
\<close>

definition isSpaceChar :: "char \<Rightarrow> bool" where
  "isSpaceChar c = (of_char c \<in> {9, 10, 11, 12, 13, 32, 160 :: nat})"

definition lowerChar :: "char \<Rightarrow> char" where
  "lowerChar c =
     (let n = (of_char c :: nat)
      in if (65 \<le> n \<and> n \<le> 90) \<or> (192 \<le> n \<and> n \<le> 222 \<and> n \<noteq> 215)
         then char_of (n + 32) else c)"

definition toLowerCase :: "string \<Rightarrow> string" where
  "toLowerCase s = map lowerChar s"

text \<open>\<^verbatim>\<open>s.replace(/\s+/g, r)\<close>: every maximal run of white space becomes \<open>r\<close>.\<close>

function replaceSpaces :: "string \<Rightarrow> string \<Rightarrow> string" where
  "replaceSpaces r [] = []"
| "replaceSpaces r (c # cs) =
     (if isSpaceChar c then r @ replaceSpaces r (dropWhile isSpaceChar cs)
      else c # replaceSpaces r cs)"
  by pat_completeness auto
termination
  by (relation "measure (\<lambda>(r, s). length s)")
     (auto simp: le_imp_less_Suc length_dropWhile_le)

text \<open>\<^verbatim>\<open>s.replace(/-/g, '')\<close>.\<close>

definition removeHyphens :: "string \<Rightarrow> string" where
  "removeHyphens s = filter (\<lambda>c. c \<noteq> CHR ''-'') s"

text \<open>\<^verbatim>\<open>s.trim()\<close>.\<close>

definition trim :: "string \<Rightarrow> string" where
  "trim s = rev (dropWhile isSpaceChar (rev (dropWhile isSpaceChar s)))"

section \<open>The shipment card (ShipmentCard): who may request which status\<close>

text \<open>
  The four flags that decide which controls the card renders for the user's role.
\<close>

definition canConfirmOrder :: "Role \<Rightarrow> Shipment \<Rightarrow> bool" where
  "canConfirmOrder role s =
     (role = TrackTeam \<and> status s = PendingConfirmation \<and> \<not> isOrderConfirmed s)"

definition canConfirmReceipt :: "Role \<Rightarrow> Shipment \<Rightarrow> bool" where
  "canConfirmReceipt role s = (role = TrackTeam \<and> status s = InTransit)"

definition canReportIssue :: "Role \<Rightarrow> Shipment \<Rightarrow> bool" where
  "canReportIssue role s =
     (role = TrackTeam \<and> (status s = InTransit \<or> status s = PendingConfirmation))"

definition canChangeStatusLogistics :: "Role \<Rightarrow> Shipment \<Rightarrow> bool" where
  "canChangeStatusLogistics role s = (role = Logistics \<and> status s \<noteq> Cancelled)"

text \<open>
  The callback of \<^verbatim>\<open>currentStatuses.filter\<close> in \<^verbatim>\<open>availableStatusesForDropdown\<close>, branch
  by branch, and the filtered list. \<^verbatim>\<open>ShipmentOverview\<close> passes \<^verbatim>\<open>defaultShipmentStatuses\<close>
  as \<^verbatim>\<open>currentStatuses\<close>.
\<close>

definition dropdownFilter :: "Role \<Rightarrow> Shipment \<Rightarrow> ShipmentStatus \<Rightarrow> bool" where
  "dropdownFilter role s st =
     (if status s = Cancelled then False
      else if st = status s then False
      else if role = Logistics then
        (if status s = WithIssue \<and> st = PendingConfirmation then True
         else if status s = PendingConfirmation \<and> \<not> isOrderConfirmed s \<and> st = Cancelled then True
         else if st \<in> set [InTransit, Delivered, WithIssue] then False
         else if isOrderConfirmed s \<and> (status s = PendingConfirmation \<or> status s = InTransit)
           then (if st = Cancelled then True else False)
         else True)
      else False)"

definition availableStatusesForDropdown :: "Role \<Rightarrow> Shipment \<Rightarrow> ShipmentStatus list" where
  "availableStatusesForDropdown role s = filter (dropdownFilter role s) defaultShipmentStatuses"

text \<open>
  What a handler of the card does: show a toast (its title is kept), open the issue
  dialog, call \<^verbatim>\<open>onUpdateStatus(shipmentId, status, issueDescription, updatedTags)\<close>, or
  nothing.
\<close>

datatype CardEffect =
    Toast string
  | OpenIssueDialog
  | OnUpdateStatus string ShipmentStatus "string option" "string list"
  | NoEffect

definition handleStatusChange :: "Role \<Rightarrow> Shipment \<Rightarrow> ShipmentStatus \<Rightarrow> CardEffect" where
  "handleStatusChange role s newStatusId =
     (if status s = Cancelled then Toast ''Action Invalid''
      else if newStatusId = WithIssue \<and> role = Logistics then Toast ''Action Invalid''
      else
        let tagsForUpdate =
              [statusId newStatusId] @
              (if newStatusId = PendingConfirmation \<and> status s = WithIssue \<and> isOrderConfirmed s
               then [''order-confirmed''] else [])
        in if newStatusId = WithIssue \<and> role = TrackTeam then OpenIssueDialog
           else OnUpdateStatus (id_shipment s) newStatusId None tagsForUpdate)"

definition handleConfirmOrder :: "Shipment \<Rightarrow> CardEffect" where
  "handleConfirmOrder s =
     (if status s = PendingConfirmation \<and> \<not> isOrderConfirmed s
      then OnUpdateStatus (id_shipment s) InTransit None [''in-transit'', ''order-confirmed'']
      else NoEffect)"

definition handleConfirmReceipt :: "Shipment \<Rightarrow> CardEffect" where
  "handleConfirmReceipt s =
     (if status s = InTransit
      then OnUpdateStatus (id_shipment s) Delivered None [''delivered'', ''order-confirmed'']
      else NoEffect)"

definition handleReportIssueConfirm :: "Shipment \<Rightarrow> string \<Rightarrow> CardEffect" where
  "handleReportIssueConfirm s issueText =
     (if trim issueText = [] then Toast ''Error''
      else if status s = InTransit \<or> status s = PendingConfirmation then
        OnUpdateStatus (id_shipment s) WithIssue (Some issueText)
          ([''with-issue''] @ (if isOrderConfirmed s then [''order-confirmed''] else []))
      else Toast ''Action Invalid'')"

text \<open>
  The card has no function of its own that plans a transition: a request for a target
  status reaches \<^verbatim>\<open>onUpdateStatus\<close> through one of four controls, each rendered under its
  flag and disabled under its \<^verbatim>\<open>disabled\<close> attribute. \<open>planTransition\<close> puts them
  together: the item of the Change Status menu (rendered under
  \<^verbatim>\<open>canChangeStatusLogistics\<close>, one item per element of \<^verbatim>\<open>availableStatusesForDropdown\<close>,
  calling \<^verbatim>\<open>handleStatusChange\<close>), the Confirm Order button for the target in-transit,
  the Confirm Receipt button for the target delivered, and the Report Issue dialog for the
  target with-issue (its trigger is disabled on a cancelled or delivered shipment). A
  request that no control carries, or whose handler does not call \<^verbatim>\<open>onUpdateStatus\<close>, is
  the invalid transition of current status, requested status and role.
\<close>

datatype TransitionError = InvalidTransition ShipmentStatus ShipmentStatus Role

fun requested :: "Role \<Rightarrow> Shipment \<Rightarrow> ShipmentStatus \<Rightarrow> CardEffect \<Rightarrow> TransitionError + CardEffect" where
  "requested role s target (OnUpdateStatus i st d ts) = Inr (OnUpdateStatus i st d ts)"
| "requested role s target e = Inl (InvalidTransition (status s) target role)"

definition planTransition ::
  "Role \<Rightarrow> Shipment \<Rightarrow> ShipmentStatus \<Rightarrow> string \<Rightarrow> TransitionError + CardEffect" where
  "planTransition role s target issueText =
     (if canChangeStatusLogistics role s \<and> status s \<noteq> Cancelled
         \<and> target \<in> set (availableStatusesForDropdown role s)
      then requested role s target (handleStatusChange role s target)
      else if target = InTransit \<and> canConfirmOrder role s \<and> status s \<noteq> Cancelled
      then requested role s target (handleConfirmOrder s)
      else if target = Delivered \<and> canConfirmReceipt role s \<and> status s \<noteq> Cancelled
      then requested role s target (handleConfirmReceipt s)
      else if target = WithIssue \<and> canReportIssue role s
         \<and> \<not> (status s = Cancelled \<or> status s = Delivered)
      then requested role s target (handleReportIssueConfirm s issueText)
      else Inl (InvalidTransition (status s) target role))"

section \<open>Tags (api/invoices/[invoiceId]/update/route.ts)\<close>

text \<open>
  A tag of a Holded document is typed \<^verbatim>\<open>any\<close>: a bare string, an object with a string
  \<^verbatim>\<open>name\<close>, or any other shape.
\<close>

datatype HoldedTag = TagString string | TagNamed string | TagOther

text \<open>
  The lookup tables \<^verbatim>\<open>knownMappings\<close> and \<^verbatim>\<open>tagToInternalStatusMap\<close> are object literals
  read with \<^verbatim>\<open>table[key]\<close>. Such a read finds the literal's own keys and, for any other key,
  the properties every object inherits from \<^verbatim>\<open>Object.prototype\<close>: under \<^verbatim>\<open>constructor\<close> the
  function \<^verbatim>\<open>Object\<close>, under \<^verbatim>\<open>__proto__\<close> the prototype itself, and so on. These values
  are objects: truthy, and not strings. \<open>JsObject k\<close> is the object inherited under the
  key \<open>k\<close>; two reads of one key give the same object.
\<close>

datatype JsValue = JsString string | JsObject string

datatype JsError = TypeError | RangeError

definition objectPrototypeKeys :: "string list" where
  "objectPrototypeKeys =
     [''constructor'', ''__defineGetter__'', ''__defineSetter__'', ''hasOwnProperty'',
      ''__lookupGetter__'', ''__lookupSetter__'', ''isPrototypeOf'', ''propertyIsEnumerable'',
      ''toString'', ''valueOf'', ''__proto__'', ''toLocaleString'']"

definition objectLookup :: "(string \<times> string) list \<Rightarrow> string \<Rightarrow> JsValue option" where
  "objectLookup table key =
     (case map_of table key of
        Some v \<Rightarrow> Some (JsString v)
      | None \<Rightarrow> if key \<in> set objectPrototypeKeys then Some (JsObject key) else None)"

text \<open>\<^verbatim>\<open>Boolean(v)\<close> on these values: only the empty string is falsy.\<close>

definition truthy :: "JsValue \<Rightarrow> bool" where
  "truthy v = (v \<noteq> JsString [])"

text \<open>\<^verbatim>\<open>[...new Set(xs)]\<close>: the first occurrence of every element, in order.\<close>

fun uniq :: "'a list \<Rightarrow> 'a list" where
  "uniq [] = []"
| "uniq (x # xs) = x # uniq (filter (\<lambda>y. y \<noteq> x) xs)"

definition ALL_MANAGEABLE_STATUS_TAG_IDS :: "string list" where
  "ALL_MANAGEABLE_STATUS_TAG_IDS = map statusId defaultShipmentStatuses"

definition ALL_POSSIBLE_APP_MANAGED_TAGS :: "string list" where
  "ALL_POSSIBLE_APP_MANAGED_TAGS = uniq (ALL_MANAGEABLE_STATUS_TAG_IDS @ [''order-confirmed''])"

definition knownMappings :: "(string \<times> string) list" where
  "knownMappings =
     [(''pendingconfirmation'', ''pending-confirmation''),
      (''orderconfirmed'', ''order-confirmed''),
      (''intransit'', ''in-transit''),
      (''withissue'', ''with-issue''),
      (''delivered'', ''delivered''),
      (''cancelled'', ''cancelled'')]"

text \<open>
  \<^verbatim>\<open>if (knownMappings[lowerTag]) return knownMappings[lowerTag]\<close>: every value a read can
  find is truthy, so the test succeeds exactly when the read finds one.
\<close>

definition normalizeHoldedTagToInternal :: "HoldedTag \<Rightarrow> JsValue" where
  "normalizeHoldedTagToInternal tag =
     (case (case tag of TagString t \<Rightarrow> Some t | TagNamed n \<Rightarrow> Some n | TagOther \<Rightarrow> None) of
        None \<Rightarrow> JsString []
      | Some rawTagValue \<Rightarrow>
          let lowerTag = toLowerCase rawTagValue
          in (case objectLookup knownMappings lowerTag of
                Some v \<Rightarrow> v
              | None \<Rightarrow> JsString (replaceSpaces ''-'' lowerTag)))"

text \<open>
  The parameter is declared a string, but the caller passes what
  \<^verbatim>\<open>normalizeHoldedTagToInternal\<close> returned: on an object, \<^verbatim>\<open>internalTag.toLowerCase\<close> is
  undefined and the call throws a TypeError.
\<close>

definition convertInternalTagToHoldedFormat :: "JsValue \<Rightarrow> JsError + string" where
  "convertInternalTagToHoldedFormat internalTag =
     (case internalTag of
        JsObject k \<Rightarrow> Inl TypeError
      | JsString t \<Rightarrow>
          let lowerInternalTag = toLowerCase t;
              isAppManaged = (lowerInternalTag \<in> set ALL_POSSIBLE_APP_MANAGED_TAGS)
          in if isAppManaged then Inr (removeHyphens lowerInternalTag) else Inr lowerInternalTag)"

text \<open>\<^verbatim>\<open>xs.map(f)\<close> for an \<open>f\<close> that may throw: the first exception ends the map.\<close>

fun mapThrowing :: "('a \<Rightarrow> 'e + 'b) \<Rightarrow> 'a list \<Rightarrow> 'e + 'b list" where
  "mapThrowing f [] = Inr []"
| "mapThrowing f (x # xs) =
     (case f x of
        Inl e \<Rightarrow> Inl e
      | Inr y \<Rightarrow> (case mapThrowing f xs of Inl e \<Rightarrow> Inl e | Inr ys \<Rightarrow> Inr (y # ys)))"

text \<open>
  The merge of \<^verbatim>\<open>PUT\<close>, from \<^verbatim>\<open>existingRawTags\<close> (the document's live tags) and
  \<^verbatim>\<open>bodyFromClient.tags || []\<close> (the desired tags) to \<^verbatim>\<open>finalTagsForHoldedPayload\<close>, with the
  source's names for the intermediate lists. \<^verbatim>\<open>includes\<close> compares a value with the
  strings of the list, so an object is never included.
\<close>

definition existingTagsInternalFormat :: "HoldedTag list \<Rightarrow> JsValue list" where
  "existingTagsInternalFormat existingRawTags =
     filter truthy (map normalizeHoldedTagToInternal existingRawTags)"

definition otherNonStatusTagsToPreserveInternalFormat :: "HoldedTag list \<Rightarrow> JsValue list" where
  "otherNonStatusTagsToPreserveInternalFormat existingRawTags =
     filter (\<lambda>tag. tag \<notin> set (map JsString ALL_POSSIBLE_APP_MANAGED_TAGS))
       (existingTagsInternalFormat existingRawTags)"

definition newAppManagedTagsFromClientInternalFormat :: "string list \<Rightarrow> JsValue list" where
  "newAppManagedTagsFromClientInternalFormat clientTags =
     map (\<lambda>tag. JsString (replaceSpaces ''-'' (toLowerCase tag))) clientTags"

definition combinedTagsInternalFormat :: "HoldedTag list \<Rightarrow> string list \<Rightarrow> JsValue list" where
  "combinedTagsInternalFormat existingRawTags clientTags =
     uniq (otherNonStatusTagsToPreserveInternalFormat existingRawTags @
           newAppManagedTagsFromClientInternalFormat clientTags)"

definition mergeTags :: "HoldedTag list \<Rightarrow> string list \<Rightarrow> JsError + string list" where
  "mergeTags existingRawTags clientTags =
     mapThrowing convertInternalTagToHoldedFormat
       (combinedTagsInternalFormat existingRawTags clientTags)"

section \<open>The update route (PUT of api/invoices/[invoiceId]/update/route.ts)\<close>




definition ok :: "nat \<Rightarrow> bool" where
  "ok st = (200 \<le> st \<and> st \<le> 299)"



text \<open>
  \<^verbatim>\<open>errorDetails.info || errorDetails.message || response.statusText\<close>, after
  \<^verbatim>\<open>errorDetails = { message: errorBodyText }\<close> and the attempt to replace it by
  \<^verbatim>\<open>JSON.parse(errorBodyText)\<close>. On the JSON \<^verbatim>\<open>null\<close> the read of \<^verbatim>\<open>info\<close> throws.
\<close>

definition nonEmpty :: "string option \<Rightarrow> string option" where
  "nonEmpty v = (case v of Some t \<Rightarrow> (if t = [] then None else Some t) | None \<Rightarrow> None)"






section \<open>Dates\<close>

text \<open>
  The code handles dates through the JavaScript \<^verbatim>\<open>Date\<close> and the library date-fns. They
  are parameters of the model: \<open>parseISO\<close> is \<^verbatim>\<open>parseISO\<close> followed by \<^verbatim>\<open>isValid\<close> and
  \<open>newDate\<close> is \<^verbatim>\<open>new Date(text)\<close> followed by \<^verbatim>\<open>isValid\<close> (the time value in milliseconds,
  \<open>None\<close> for an invalid date), \<open>toISOString\<close> is \<^verbatim>\<open>toISOString\<close> on a valid date,
  \<open>formatYMD\<close> is \<^verbatim>\<open>format(d, 'yyyy-MM-dd')\<close> on a valid date, which prints the day in the
  local time zone, and \<open>now\<close> is the current time.
\<close>

record DateLib =
  parseISO :: "string \<Rightarrow> int option"
  newDate :: "string \<Rightarrow> int option"
  toISOString :: "int \<Rightarrow> string"
  formatYMD :: "int \<Rightarrow> string"
  now :: int

text \<open>
  A time value is valid up to 8.64e15 milliseconds either side of the epoch;
  \<^verbatim>\<open>new Date(v)\<close> beyond that is an invalid date, on which \<^verbatim>\<open>toISOString\<close> throws a
  RangeError. \<open>unixToISOString\<close> is \<^verbatim>\<open>new Date(seconds * 1000).toISOString()\<close>.
\<close>

definition validTime :: "int \<Rightarrow> bool" where
  "validTime ms = (\<bar>ms\<bar> \<le> 8640000000000000)"

definition unixToISOString :: "DateLib \<Rightarrow> int \<Rightarrow> JsError + string" where
  "unixToISOString lib seconds =
     (if validTime (seconds * 1000) then Inr (toISOString lib (seconds * 1000))
      else Inl RangeError)"

section \<open>Reading a document (app/api/invoices/route.ts)\<close>

text \<open>
  \<^verbatim>\<open>s.split(sep)\<close> for a separator that is not empty (the code splits on a line feed and
  on a colon followed by a space), and \<^verbatim>\<open>parts.join(sep)\<close>.
\<close>

function jsSplit :: "string \<Rightarrow> string \<Rightarrow> string list" where
  "jsSplit sep [] = [[]]"
| "jsSplit sep (c # cs) =
     (if sep \<noteq> [] \<and> prefix sep (c # cs)
      then [] # jsSplit sep (drop (length sep) (c # cs))
      else (case jsSplit sep cs of [] \<Rightarrow> [[c]] | w # ws \<Rightarrow> (c # w) # ws))"
  by pat_completeness auto
termination
  by (relation "measure (\<lambda>(sep, s). length s)") auto

fun jsJoin :: "string \<Rightarrow> string list \<Rightarrow> string" where
  "jsJoin sep [] = []"
| "jsJoin sep [x] = x"
| "jsJoin sep (x # y # ys) = x @ sep @ jsJoin sep (y # ys)"

text \<open>The test \<^verbatim>\<open>/^\d{4}-\d{2}-\d{2}$/\<close>.\<close>

definition isDigit :: "char \<Rightarrow> bool" where
  "isDigit c = (48 \<le> (of_char c :: nat) \<and> (of_char c :: nat) \<le> 57)"

definition isYMD :: "string \<Rightarrow> bool" where
  "isYMD v =
     (case v of
        [y1, y2, y3, y4, h1, m1, m2, h2, d1, d2] \<Rightarrow>
          isDigit y1 \<and> isDigit y2 \<and> isDigit y3 \<and> isDigit y4 \<and> h1 = CHR ''-'' \<and>
          isDigit m1 \<and> isDigit m2 \<and> h2 = CHR ''-'' \<and> isDigit d1 \<and> isDigit d2
      | _ \<Rightarrow> False)"

text \<open>
  \<^verbatim>\<open>Partial<Shipment>\<close>, with the fields \<^verbatim>\<open>parseShipmentNotes\<close> sets.
\<close>

record PartialShipment =
  p_title :: "string option"
  p_origin :: "string option"
  p_destination :: "string option"
  p_estimatedDelivery :: "string option"
  p_actualDelivery :: "string option"
  p_issueDescription :: "string option"
  p_id :: "string option"
  p_isOrderConfirmed :: "bool option"

definition emptyPartial :: PartialShipment where
  "emptyPartial =
     \<lparr>p_title = None, p_origin = None, p_destination = None, p_estimatedDelivery = None,
      p_actualDelivery = None, p_issueDescription = None, p_id = None,
      p_isOrderConfirmed = None\<rparr>"

text \<open>
  The body of the \<^verbatim>\<open>forEach\<close> of \<^verbatim>\<open>parseShipmentNotes\<close>: the line is split into key and
  value, and \<open>assignKey\<close> is the chain of tests on the key. Then the function.
\<close>

definition assignKey :: "DateLib \<Rightarrow> PartialShipment \<Rightarrow> string \<Rightarrow> string \<Rightarrow> PartialShipment" where
  "assignKey lib parsed key v =
     (if key = ''Shipment Title'' then parsed\<lparr>p_title := Some v\<rparr>
      else if key = ''Origin'' then parsed\<lparr>p_origin := Some v\<rparr>
      else if key = ''Destination'' then parsed\<lparr>p_destination := Some v\<rparr>
      else if key = ''Est. Delivery'' then
        (case (if isYMD v then parseISO lib (v @ ''T00:00:00.000Z'') else newDate lib v) of
           Some dateObj \<Rightarrow> parsed\<lparr>p_estimatedDelivery := Some (toISOString lib dateObj)\<rparr>
         | None \<Rightarrow> parsed)
      else if key = ''Actual Delivery'' then
        (case parseISO lib v of
           Some dateObj \<Rightarrow> parsed\<lparr>p_actualDelivery := Some (toISOString lib dateObj)\<rparr>
         | None \<Rightarrow> parsed)
      else if key = ''Issue'' then parsed\<lparr>p_issueDescription := Some v\<rparr>
      else if key = ''Internal Shipment ID'' then parsed\<lparr>p_id := Some v\<rparr>
      else if key = ''Order Confirmed''
        then parsed\<lparr>p_isOrderConfirmed := Some (toLowerCase v = ''true'')\<rparr>
      else parsed)"

definition parseLine :: "DateLib \<Rightarrow> PartialShipment \<Rightarrow> string \<Rightarrow> PartialShipment" where
  "parseLine lib parsed line =
     (case jsSplit '': '' line of
        [] \<Rightarrow> parsed
      | key # valueParts \<Rightarrow> assignKey lib parsed key (trim (jsJoin '': '' valueParts)))"

definition parseShipmentNotes :: "DateLib \<Rightarrow> string option \<Rightarrow> PartialShipment" where
  "parseShipmentNotes lib notes =
     (case nonEmpty notes of
        None \<Rightarrow> emptyPartial
      | Some n \<Rightarrow> foldl (parseLine lib) emptyPartial (jsSplit [CHR 0x0A] n))"

text \<open>
  A document of the list Holded returns, with the fields the projection reads. A custom
  field is the pair of its \<^verbatim>\<open>field\<close> and its \<^verbatim>\<open>value\<close>. \<open>inv_date\<close> is in Unix seconds.
\<close>

record RetrievedHoldedInvoiceProduct =
  name_item :: string
  productId_item :: string
  sku_item :: "string option"
  units_item :: int

record HoldedInvoice =
  inv_id :: string
  inv_docNumber :: "string option"
  inv_desc :: "string option"
  inv_notes :: "string option"
  inv_customFields :: "(string \<times> string) list option"
  inv_tags :: "HoldedTag list option"
  inv_date :: "int option"
  inv_products :: "RetrievedHoldedInvoiceProduct list option"

text \<open>
  \<^verbatim>\<open>desc.match(/Invoice for Shipment: ([^(]+)(?:\s\(TrackPulse ID: ([^)]+)\))?/)\<close>: the
  two groups of the first match. The first group is greedy and takes every character up
  to the next opening parenthesis or the end, so the optional part, which has to begin
  with a white space, never finds one where the first group stops; it matches empty, the
  match succeeds there, and the second group is always undefined.
\<close>

fun descMatch :: "string \<Rightarrow> (string \<times> string option) option" where
  "descMatch [] = None"
| "descMatch (c # cs) =
     (if prefix ''Invoice for Shipment: '' (c # cs)
         \<and> takeWhile (\<lambda>x. x \<noteq> CHR ''('') (drop 22 (c # cs)) \<noteq> []
      then Some (takeWhile (\<lambda>x. x \<noteq> CHR ''('') (drop 22 (c # cs)), None)
      else descMatch cs)"

definition tagToInternalStatusMap :: "(string \<times> string) list" where
  "tagToInternalStatusMap =
     [(''pendingconfirmation'', ''pending-confirmation''),
      (''orderconfirmed'', ''order-confirmed''),
      (''withissue'', ''with-issue''),
      (''intransit'', ''in-transit''),
      (''delivered'', ''delivered''),
      (''cancelled'', ''cancelled'')]"

definition invTags :: "HoldedInvoice \<Rightarrow> string list" where
  "invTags invoice =
     filter (\<lambda>t. t \<noteq> [])
       (map (\<lambda>tag. replaceSpaces ''-''
                (toLowerCase (case tag of TagString t \<Rightarrow> t | TagNamed n \<Rightarrow> n | TagOther \<Rightarrow> [])))
          (case inv_tags invoice of Some ts \<Rightarrow> ts | None \<Rightarrow> []))"

definition normalizedInvTags :: "HoldedInvoice \<Rightarrow> JsValue list" where
  "normalizedInvTags invoice =
     map (\<lambda>tag. case objectLookup tagToInternalStatusMap (removeHyphens tag) of
                  Some v \<Rightarrow> v
                | None \<Rightarrow> JsString tag)
       (invTags invoice)"

definition statusPriority :: "ShipmentStatus list" where
  "statusPriority = [WithIssue, Cancelled, Delivered, InTransit, PendingConfirmation]"

text \<open>The loop over \<^verbatim>\<open>statusPriority\<close>, with its \<^verbatim>\<open>break\<close> at the first status included.\<close>

fun scanPriority :: "JsValue list \<Rightarrow> ShipmentStatus list \<Rightarrow> ShipmentStatus \<Rightarrow> ShipmentStatus" where
  "scanPriority ts [] statusTag = statusTag"
| "scanPriority ts (prioritizedStatus # rest) statusTag =
     (if JsString (statusId prioritizedStatus) \<in> set ts then prioritizedStatus
      else scanPriority ts rest statusTag)"

definition statusTag :: "HoldedInvoice \<Rightarrow> ShipmentStatus" where
  "statusTag invoice = scanPriority (normalizedInvTags invoice) statusPriority PendingConfirmation"

definition productOf :: "RetrievedHoldedInvoiceProduct \<Rightarrow> ShipmentProduct" where
  "productOf item =
     \<lparr>productId =
        (if productId_item item \<noteq> [] then productId_item item
         else case nonEmpty (sku_item item) of
                Some k \<Rightarrow> k
              | None \<Rightarrow> ''unknown_pid_for_'' @ replaceSpaces ''_'' (name_item item)),
      units = units_item item\<rparr>"

text \<open>
  The callback of \<^verbatim>\<open>holdedInvoices.map\<close> in \<^verbatim>\<open>GET\<close>: the shipment of one document, or the
  exception it throws. \<open>titleAndId\<close> is the part that settles \<^verbatim>\<open>title\<close> and \<^verbatim>\<open>shipmentId\<close>;
  \<open>invoiceDateOrNow\<close> is the expression
  \<^verbatim>\<open>inv.date ? new Date(inv.date * 1000).toISOString() : new Date().toISOString()\<close>, which the
  callback evaluates for \<^verbatim>\<open>createdAtDate\<close> and, when the notes give no estimated delivery,
  for \<^verbatim>\<open>estDeliveryDate\<close>.
\<close>

definition titleAndId :: "HoldedInvoice \<Rightarrow> PartialShipment \<Rightarrow> string \<times> string" where
  "titleAndId invoice notesData =
     (let shipmentId0 =
            (case find (\<lambda>cf. fst cf = ''shipment_id'')
                    (case inv_customFields invoice of Some cfs \<Rightarrow> cfs | None \<Rightarrow> []) of
               Some shipmentIdField \<Rightarrow> Some (snd shipmentIdField)
             | None \<Rightarrow> p_id notesData);
          title0 = p_title notesData;
          (title1, shipmentId1) =
            (if nonEmpty title0 = None \<and> nonEmpty (inv_desc invoice) \<noteq> None then
               (case descMatch (the (inv_desc invoice)) of
                  Some (g1, g2) \<Rightarrow>
                    (Some (trim g1),
                     if nonEmpty shipmentId0 = None \<and> nonEmpty g2 \<noteq> None
                     then Some (''shp_'' @ the g2) else shipmentId0)
                | None \<Rightarrow> (title0, shipmentId0))
             else (title0, shipmentId0));
          title2 =
            (case nonEmpty title1 of
               Some t \<Rightarrow> t
             | None \<Rightarrow> ''Shipment for Invoice '' @
                 (case nonEmpty (inv_docNumber invoice) of Some n \<Rightarrow> n | None \<Rightarrow> inv_id invoice));
          shipmentId2 =
            (case nonEmpty shipmentId1 of Some i \<Rightarrow> i | None \<Rightarrow> ''inv_'' @ inv_id invoice)
      in (title2, shipmentId2))"

definition invoiceDateOrNow :: "DateLib \<Rightarrow> HoldedInvoice \<Rightarrow> JsError + string" where
  "invoiceDateOrNow lib invoice =
     (case inv_date invoice of
        None \<Rightarrow> Inr (toISOString lib (now lib))
      | Some d \<Rightarrow> if d = 0 then Inr (toISOString lib (now lib)) else unixToISOString lib d)"

definition decode :: "DateLib \<Rightarrow> HoldedInvoice \<Rightarrow> JsError + Shipment" where
  "decode lib invoice =
     (let notesData = parseShipmentNotes lib (inv_notes invoice);
          (title2, shipmentId2) = titleAndId invoice notesData;
          isOrderConfirmedFromTag = (JsString ''order-confirmed'' \<in> set (normalizedInvTags invoice));
          isOrderConfirmedFromNotes = (case p_isOrderConfirmed notesData of Some b \<Rightarrow> b | None \<Rightarrow> False)
      in case (case nonEmpty (p_estimatedDelivery notesData) of
                 Some e \<Rightarrow> Inr e
               | None \<Rightarrow> invoiceDateOrNow lib invoice) of
           Inl e \<Rightarrow> Inl e
         | Inr estDeliveryDate \<Rightarrow>
             (case invoiceDateOrNow lib invoice of
                Inl e \<Rightarrow> Inl e
              | Inr createdAtDate \<Rightarrow>
                  Inr \<lparr>id_shipment = shipmentId2,
                       title = title2,
                       status = statusTag invoice,
                       products = map productOf
                         (case inv_products invoice of Some ps \<Rightarrow> ps | None \<Rightarrow> []),
                       estimatedDelivery = estDeliveryDate,
                       actualDelivery = p_actualDelivery notesData,
                       issueDescription = p_issueDescription notesData,
                       origin = (case nonEmpty (p_origin notesData) of Some v \<Rightarrow> v | None \<Rightarrow> ''N/A''),
                       destination =
                         (case nonEmpty (p_destination notesData) of Some v \<Rightarrow> v | None \<Rightarrow> ''N/A''),
                       isOrderConfirmed = (isOrderConfirmedFromTag \<or> isOrderConfirmedFromNotes),
                       createdAt = createdAtDate,
                       holdedInvoiceId = Some (inv_id invoice),
                       tags = invTags invoice\<rparr>))"

text \<open>
  The list \<^verbatim>\<open>GET\<close> answers with: the map over the documents, ended by the first exception
  (the route then answers 500 for the whole list), and the filter on a truthy id.
\<close>

definition shipmentsOf :: "DateLib \<Rightarrow> HoldedInvoice list \<Rightarrow> JsError + Shipment list" where
  "shipmentsOf lib holdedInvoices =
     (case mapThrowing (decode lib) holdedInvoices of
        Inl e \<Rightarrow> Inl e
      | Inr shipments \<Rightarrow> Inr (filter (\<lambda>s. id_shipment s \<noteq> []) shipments))"

section \<open>Writing a document (handleUpdateShipmentStatus of ShipmentOverview)\<close>

text \<open>
  The values the handler computes from the current shipment, the new status, the issue
  text and the tags the card passes (\<open>None\<close> when a caller passes no tags), under the
  source's names.
\<close>

definition actualDeliveryTimestamp ::
  "DateLib \<Rightarrow> Role \<Rightarrow> Shipment \<Rightarrow> ShipmentStatus \<Rightarrow> string option" where
  "actualDeliveryTimestamp lib role currentShipment newStatus =
     (if newStatus = Delivered \<and> status currentShipment = InTransit \<and> role = TrackTeam
      then Some (toISOString lib (now lib))
      else actualDelivery currentShipment)"

definition isConfirmed :: "Shipment \<Rightarrow> ShipmentStatus \<Rightarrow> string list option \<Rightarrow> bool" where
  "isConfirmed currentShipment newStatus updatedTagsFromClient =
     (if (case updatedTagsFromClient of Some ts \<Rightarrow> ''order-confirmed'' \<in> set ts | None \<Rightarrow> False)
      then True
      else if newStatus = Cancelled
              \<or> (newStatus = PendingConfirmation \<and> status currentShipment = WithIssue)
      then (case updatedTagsFromClient of
              Some ts \<Rightarrow> ''order-confirmed'' \<in> set ts
            | None \<Rightarrow> isOrderConfirmed currentShipment)
      else isOrderConfirmed currentShipment)"

definition finalIssueDescription ::
  "Shipment \<Rightarrow> ShipmentStatus \<Rightarrow> string option \<Rightarrow> string option" where
  "finalIssueDescription currentShipment newStatus issueDescription' =
     (if newStatus = WithIssue then issueDescription'
      else if status currentShipment = WithIssue \<and> newStatus \<noteq> Cancelled then None
      else issueDescription currentShipment)"

definition updatedShipmentForLocalState ::
  "DateLib \<Rightarrow> Role \<Rightarrow> Shipment \<Rightarrow> ShipmentStatus \<Rightarrow> string option \<Rightarrow> string list option
     \<Rightarrow> Shipment" where
  "updatedShipmentForLocalState lib role currentShipment newStatus issueDescription' updatedTagsFromClient =
     currentShipment
       \<lparr>status := newStatus,
        isOrderConfirmed := isConfirmed currentShipment newStatus updatedTagsFromClient,
        issueDescription := finalIssueDescription currentShipment newStatus issueDescription',
        actualDelivery := actualDeliveryTimestamp lib role currentShipment newStatus,
        tags := (case updatedTagsFromClient of Some ts \<Rightarrow> ts | None \<Rightarrow> tags currentShipment)\<rparr>"

text \<open>
  The notes: \<^verbatim>\<open>notesForHoldedParts\<close> and their join with line feeds. \<^verbatim>\<open>format\<close> throws a
  RangeError on an invalid date.
\<close>

definition notesForHoldedParts ::
  "DateLib \<Rightarrow> Shipment \<Rightarrow> bool \<Rightarrow> string option \<Rightarrow> string option \<Rightarrow> JsError + string list" where
  "notesForHoldedParts lib updated confirmed actualTimestamp finalIssue =
     (case parseISO lib (estimatedDelivery updated) of
        None \<Rightarrow> Inl RangeError
      | Some d \<Rightarrow>
          Inr ([''Shipment Title: '' @ title updated,
                ''Origin: '' @ origin updated,
                ''Destination: '' @ destination updated,
                ''Est. Delivery: '' @ formatYMD lib d,
                ''Internal Shipment ID: '' @ id_shipment updated,
                ''Order Confirmed: '' @ (if confirmed then ''true'' else ''false'')]
               @ (case nonEmpty actualTimestamp of
                    Some a \<Rightarrow> [''Actual Delivery: '' @ a] | None \<Rightarrow> [])
               @ (case nonEmpty finalIssue of
                    Some i \<Rightarrow> [''Issue: '' @ i] | None \<Rightarrow> [])))"

definition notesForHolded ::
  "DateLib \<Rightarrow> Shipment \<Rightarrow> bool \<Rightarrow> string option \<Rightarrow> string option \<Rightarrow> JsError + string" where
  "notesForHolded lib updated confirmed actualTimestamp finalIssue =
     (case notesForHoldedParts lib updated confirmed actualTimestamp finalIssue of
        Inl e \<Rightarrow> Inl e
      | Inr parts \<Rightarrow> Inr (jsJoin [CHR 0x0A] parts))"



text \<open>The notes the handler writes for a shipment record, as a function of the record.\<close>

definition encodeNotes :: "DateLib \<Rightarrow> Shipment \<Rightarrow> JsError + string" where
  "encodeNotes lib r =
     notesForHolded lib r (isOrderConfirmed r) (actualDelivery r) (issueDescription r)"

section \<open>Notions used in the statements\<close>

text \<open>
  The internal form of a tag text: lower case, every run of white space a hyphen. A text
  is normal when it is its own internal form, character by character. A tag text spells
  an inherited property when its lower case is one of the two names of
  \<^verbatim>\<open>Object.prototype\<close> without a capital.
\<close>

definition internalForm :: "string \<Rightarrow> string" where
  "internalForm t = replaceSpaces ''-'' (toLowerCase t)"

definition normalTag :: "string \<Rightarrow> bool" where
  "normalTag t = (\<forall>c\<in>set t. lowerChar c = c \<and> \<not> isSpaceChar c)"

definition inheritedName :: "string \<Rightarrow> bool" where
  "inheritedName t = (toLowerCase t = ''constructor'' \<or> toLowerCase t = ''__proto__'')"

fun rawTagValue :: "HoldedTag \<Rightarrow> string option" where
  "rawTagValue (TagString t) = Some t"
| "rawTagValue (TagNamed n) = Some n"
| "rawTagValue TagOther = None"

definition isUpperAscii :: "char \<Rightarrow> bool" where
  "isUpperAscii c = (65 \<le> (of_char c :: nat) \<and> (of_char c :: nat) \<le> 90)"

text \<open>
  The Holded format of an internal tag text: a tag the application manages loses its
  hyphens, any other text stays. \<open>noInheritedName\<close> holds of a list of document tags none
  of which spells an inherited property. A foreign tag text is one that is not empty, is
  normal, and is neither a managed tag, nor the Holded spelling of one, nor an inherited
  name.
\<close>

definition holdedFormat :: "string \<Rightarrow> string" where
  "holdedFormat t = (if t \<in> set ALL_POSSIBLE_APP_MANAGED_TAGS then removeHyphens t else t)"

definition noInheritedName :: "HoldedTag list \<Rightarrow> bool" where
  "noInheritedName live =
     list_all (\<lambda>tag. case rawTagValue tag of None \<Rightarrow> True | Some t \<Rightarrow> \<not> inheritedName t) live"

definition foreignTag :: "string \<Rightarrow> bool" where
  "foreignTag t = (t \<noteq> [] \<and> normalTag t \<and> \<not> inheritedName t \<and>
      t \<notin> set ALL_POSSIBLE_APP_MANAGED_TAGS \<and> t \<notin> set (map fst knownMappings))"

fun holdedOf :: "JsValue \<Rightarrow> string" where
  "holdedOf (JsString t) = holdedFormat t"
| "holdedOf (JsObject k) = k"

text \<open>
  The text of a tag. A document carries a status when the status's tag is among its
  normalized tags, and the confirmation when the tag order-confirmed is.
  \<open>shipmentIdCustomField\<close> is its custom field \<^verbatim>\<open>shipment_id\<close>, when it has one. Its date is
  valid when it is absent, zero (falsy), or a time value \<^verbatim>\<open>Date\<close> can hold. A document has
  no tags and no notes when both fields are absent or empty.
\<close>

fun tagText :: "HoldedTag \<Rightarrow> string" where
  "tagText (TagString t) = t"
| "tagText (TagNamed n) = n"
| "tagText TagOther = []"

definition hasStatusTag :: "HoldedInvoice \<Rightarrow> ShipmentStatus \<Rightarrow> bool" where
  "hasStatusTag invoice st = (JsString (statusId st) \<in> set (normalizedInvTags invoice))"

definition hasConfirmedTag :: "HoldedInvoice \<Rightarrow> bool" where
  "hasConfirmedTag invoice = (JsString ''order-confirmed'' \<in> set (normalizedInvTags invoice))"

definition shipmentIdCustomField :: "HoldedInvoice \<Rightarrow> (string \<times> string) option" where
  "shipmentIdCustomField invoice =
     find (\<lambda>cf. fst cf = ''shipment_id'')
       (case inv_customFields invoice of Some cfs \<Rightarrow> cfs | None \<Rightarrow> [])"

definition validDate :: "HoldedInvoice \<Rightarrow> bool" where
  "validDate invoice =
     (case inv_date invoice of None \<Rightarrow> True | Some d \<Rightarrow> d = 0 \<or> validTime (d * 1000))"

definition noTagsNoNotes :: "HoldedInvoice \<Rightarrow> bool" where
  "noTagsNoNotes invoice =
     ((inv_tags invoice = None \<or> inv_tags invoice = Some []) \<and> nonEmpty (inv_notes invoice) = None)"

text \<open>
  A text is free of line feeds; a text is plain when it is free of line feeds and has no
  white space at either end. An instant is canonical when parsing it and printing it
  again gives the same text. \<open>readBack\<close> follows an estimated delivery through the notes:
  the handler prints its day with \<^verbatim>\<open>format\<close>, in the time zone of the browser, and
  \<^verbatim>\<open>parseShipmentNotes\<close> reads a day as its midnight UTC; \<open>readBack\<close> is the text that
  comes back, when the printed day has the form of a day and names a date.
\<close>

definition lineFree :: "string \<Rightarrow> bool" where
  "lineFree t = (CHR 0x0A \<notin> set t)"

definition plainText :: "string \<Rightarrow> bool" where
  "plainText t = (lineFree t \<and> trim t = t)"

definition canonicalInstant :: "DateLib \<Rightarrow> string \<Rightarrow> bool" where
  "canonicalInstant lib a =
     (case parseISO lib a of Some t \<Rightarrow> toISOString lib t = a | None \<Rightarrow> False)"

definition readBack :: "DateLib \<Rightarrow> string \<Rightarrow> string option" where
  "readBack lib e =
     (case parseISO lib e of
        None \<Rightarrow> None
      | Some d \<Rightarrow>
          if isYMD (formatYMD lib d)
          then (case parseISO lib (formatYMD lib d @ ''T00:00:00.000Z'') of
                  Some d' \<Rightarrow> Some (toISOString lib d')
                | None \<Rightarrow> None)
          else None)"

text \<open>
  The fields of the notes as pairs of key and value, in the order the handler writes
  them, and the line of a pair. A record is plain when its title, origin, destination
  and id are plain and not empty, its actual delivery, when set, is a plain canonical
  instant, and its issue text, when set, is plain. A record round-trips when it is plain
  and its estimated delivery is read back as itself.
\<close>

definition noteFields ::
  "string \<Rightarrow> Shipment \<Rightarrow> bool \<Rightarrow> string option \<Rightarrow> string option \<Rightarrow> (string \<times> string) list" where
  "noteFields ymd updated confirmed actual issue =
     [(''Shipment Title'', title updated),
      (''Origin'', origin updated),
      (''Destination'', destination updated),
      (''Est. Delivery'', ymd),
      (''Internal Shipment ID'', id_shipment updated),
      (''Order Confirmed'', if confirmed then ''true'' else ''false'')]
     @ (case nonEmpty actual of Some a \<Rightarrow> [(''Actual Delivery'', a)] | None \<Rightarrow> [])
     @ (case nonEmpty issue of Some i \<Rightarrow> [(''Issue'', i)] | None \<Rightarrow> [])"

definition fieldLine :: "string \<times> string \<Rightarrow> string" where
  "fieldLine kv = fst kv @ '': '' @ snd kv"

definition plainRecord :: "DateLib \<Rightarrow> Shipment \<Rightarrow> bool" where
  "plainRecord lib r =
     (plainText (title r) \<and> title r \<noteq> [] \<and>
      plainText (origin r) \<and> origin r \<noteq> [] \<and>
      plainText (destination r) \<and> destination r \<noteq> [] \<and>
      plainText (id_shipment r) \<and> id_shipment r \<noteq> [] \<and>
      (case actualDelivery r of
         None \<Rightarrow> True
       | Some a \<Rightarrow> a \<noteq> [] \<and> plainText a \<and> canonicalInstant lib a) \<and>
      (case issueDescription r of None \<Rightarrow> True | Some i \<Rightarrow> plainText i))"

definition roundTripRecord :: "DateLib \<Rightarrow> Shipment \<Rightarrow> bool" where
  "roundTripRecord lib r =
     (plainRecord lib r \<and> estimatedDelivery r \<noteq> [] \<and>
      readBack lib (estimatedDelivery r) = Some (estimatedDelivery r))"

text \<open>
  The update a control of the card requests for a shipment: the record
  \<^verbatim>\<open>handleUpdateShipmentStatus\<close> puts into the list when the request for the target status
  reaches \<^verbatim>\<open>onUpdateStatus\<close>, and none when no control carries the request. A record is
  reachable when such updates, each under its own role and at its own reading of the
  clock, lead to it from a shipment that has no actual delivery; \<open>later r r'\<close> holds when
  they lead from \<open>r\<close> to \<open>r'\<close>. \<open>deliveryKept\<close> is the invariant of the reachable records: a
  shipment with an actual delivery is cancelled, or is confirmed and not in transit.
\<close>

definition requestedUpdate ::
  "DateLib \<Rightarrow> Role \<Rightarrow> Shipment \<Rightarrow> ShipmentStatus \<Rightarrow> string \<Rightarrow> Shipment option" where
  "requestedUpdate lib role r target issueText =
     (case planTransition role r target issueText of
        Inr (OnUpdateStatus i newStatus issue ts) \<Rightarrow>
          Some (updatedShipmentForLocalState lib role r newStatus issue (Some ts))
      | _ \<Rightarrow> None)"

inductive reachable :: "Shipment \<Rightarrow> bool" where
  undelivered: "actualDelivery r = None \<Longrightarrow> reachable r"
| updated:
    "reachable r \<Longrightarrow> requestedUpdate lib role r target issueText = Some r' \<Longrightarrow> reachable r'"


definition deliveryKept :: "Shipment \<Rightarrow> bool" where
  "deliveryKept r =
     (actualDelivery r = None \<or> status r = Cancelled \<or>
      (isOrderConfirmed r \<and> status r \<noteq> InTransit))"

section \<open>Example data\<close>

definition exampleLiveTags :: "HoldedTag list" where
  "exampleLiveTags = [TagString ''sensor'', TagNamed ''intransit'', TagString ''Race Day'', TagOther]"

definition exampleShipment :: Shipment where
  "exampleShipment =
     \<lparr>id_shipment = ''shp_1'', title = ''Tyres'', status = PendingConfirmation, products = [],
      estimatedDelivery = ''2024-05-10T00:00:00.000Z'', actualDelivery = None,
      issueDescription = None, origin = ''Factory A'', destination = ''Track B'',
      isOrderConfirmed = True, createdAt = ''2024-05-01T08:00:00.000Z'',
      holdedInvoiceId = Some ''inv1'', tags = [''pendingconfirmation'', ''orderconfirmed'']\<rparr>"

text \<open>
  A date library for the examples. It knows four instants: 10 May 2024 at midnight UTC,
  12 May 2024 at midnight and at 09:30 UTC, and 1 June 2024 at noon UTC (the current time),
  and prints days in UTC.
\<close>

definition exampleLib :: DateLib where
  "exampleLib =
     \<lparr>parseISO = (\<lambda>t. if t = ''2024-05-10T00:00:00.000Z'' then Some 1715299200000
                       else if t = ''2024-05-12T00:00:00.000Z'' then Some 1715472000000
                       else if t = ''2024-05-12T09:30:00.000Z'' then Some 1715506200000
                       else if t = ''2024-06-01T12:00:00.000Z'' then Some 1717243200000
                       else None),
      newDate = (\<lambda>t. if t = ''2024-05-10T00:00:00.000Z'' then Some 1715299200000
                      else if t = ''2024-05-12T00:00:00.000Z'' then Some 1715472000000
                      else if t = ''2024-05-12T09:30:00.000Z'' then Some 1715506200000
                      else if t = ''2024-06-01T12:00:00.000Z'' then Some 1717243200000
                      else None),
      toISOString = (\<lambda>ms. if ms = 1715299200000 then ''2024-05-10T00:00:00.000Z''
                           else if ms = 1715472000000 then ''2024-05-12T00:00:00.000Z''
                           else if ms = 1715506200000 then ''2024-05-12T09:30:00.000Z''
                           else if ms = 1717243200000 then ''2024-06-01T12:00:00.000Z''
                           else ''1970-01-01T00:00:00.000Z''),
      formatYMD = (\<lambda>ms. if ms = 1715299200000 then ''2024-05-10''
                         else if ms = 1715472000000 then ''2024-05-12''
                         else if ms = 1715506200000 then ''2024-05-12''
                         else if ms = 1717243200000 then ''2024-06-01''
                         else ''1970-01-01''),
      now = 1717243200000\<rparr>"

definition exampleInvoice :: HoldedInvoice where
  "exampleInvoice =
     \<lparr>inv_id = ''inv1'', inv_docNumber = Some ''F-0001'',
      inv_desc = Some ''Invoice for Shipment: Tyres (TrackPulse ID: 1_abc)'',
      inv_notes = None, inv_customFields = None,
      inv_tags = Some [TagString ''in-transit'', TagString ''with-issue'', TagNamed ''Sensor''],
      inv_date = Some 1715299200, inv_products = None\<rparr>"

text \<open>
  The same library in a browser five hours west of UTC: it also knows 9 May 2024 at
  midnight UTC, and prints the day of the local time, which for a midnight UTC is the day
  before.
\<close>

definition westLib :: DateLib where
  "westLib =
     \<lparr>parseISO = (\<lambda>t. if t = ''2024-05-09T00:00:00.000Z'' then Some 1715212800000
                       else if t = ''2024-05-10T00:00:00.000Z'' then Some 1715299200000
                       else if t = ''2024-05-12T09:30:00.000Z'' then Some 1715506200000
                       else if t = ''2024-06-01T12:00:00.000Z'' then Some 1717243200000
                       else None),
      newDate = (\<lambda>t. if t = ''2024-05-09T00:00:00.000Z'' then Some 1715212800000
                      else if t = ''2024-05-10T00:00:00.000Z'' then Some 1715299200000
                      else if t = ''2024-05-12T09:30:00.000Z'' then Some 1715506200000
                      else if t = ''2024-06-01T12:00:00.000Z'' then Some 1717243200000
                      else None),
      toISOString = (\<lambda>ms. if ms = 1715212800000 then ''2024-05-09T00:00:00.000Z''
                           else if ms = 1715299200000 then ''2024-05-10T00:00:00.000Z''
                           else if ms = 1715506200000 then ''2024-05-12T09:30:00.000Z''
                           else if ms = 1717243200000 then ''2024-06-01T12:00:00.000Z''
                           else ''1970-01-01T00:00:00.000Z''),
      formatYMD = (\<lambda>ms. if ms = 1715212800000 then ''2024-05-08''
                         else if ms = 1715299200000 then ''2024-05-09''
                         else if ms = 1715506200000 then ''2024-05-12''
                         else if ms = 1717243200000 then ''2024-06-01''
                         else ''1969-12-31''),
      now = 1717243200000\<rparr>"

text \<open>
  The notes \<^verbatim>\<open>handleAddShipment\<close> writes for a new shipment with the estimated delivery
  10 May 2024, and the document that carries them.
\<close>

definition exampleNotes :: string where
  "exampleNotes =
     jsJoin [CHR 0x0A]
       [''Shipment Title: Tyres'', ''Origin: Factory A'', ''Destination: Track B'',
        ''Est. Delivery: 2024-05-10'', ''Internal Shipment ID: shp_1'',
        ''Order Confirmed: false'']"

definition exampleStored :: HoldedInvoice where
  "exampleStored =
     exampleInvoice\<lparr>inv_tags := Some [TagString ''pendingconfirmation''],
                     inv_notes := Some exampleNotes\<rparr>"





text \<open>
  A document tagged in-transit and with-issue whose date, in Unix seconds, is beyond the
  range of \<^verbatim>\<open>Date\<close>.
\<close>

definition exampleTwoStatuses :: HoldedInvoice where
  "exampleTwoStatuses =
     exampleInvoice\<lparr>inv_tags := Some [TagString ''in-transit'', TagString ''with-issue''],
                     inv_date := Some 10000000000000\<rparr>"

definition exampleDelivered :: Shipment where
  "exampleDelivered =
     exampleShipment\<lparr>status := Delivered, actualDelivery := Some ''2024-05-12T09:30:00.000Z'',
                      issueDescription := Some ''box: crushed''\<rparr>"

section \<open>Properties of the string operations\<close>

lemma lowerChar_idem: "lowerChar (lowerChar c) = lowerChar c"
  by (auto simp: lowerChar_def Let_def)

lemma toLowerCase_idem: "toLowerCase (toLowerCase s) = toLowerCase s"
  by (simp add: toLowerCase_def lowerChar_idem)

lemma isSpace_lowerChar: "isSpaceChar (lowerChar c) = isSpaceChar c"
  by (auto simp: lowerChar_def isSpaceChar_def Let_def)

lemma lower_hyphen: "lowerChar CHR ''-'' = CHR ''-''"
  by (simp add: lowerChar_def)

lemma hyphen_nospace: "\<not> isSpaceChar CHR ''-''"
  by (simp add: isSpaceChar_def)

lemma lowerChar_not_upper: "\<not> isUpperAscii (lowerChar c)"
  by (auto simp: lowerChar_def isUpperAscii_def Let_def)

lemma toLowerCase_not_upper: "c \<in> set (toLowerCase s) \<Longrightarrow> \<not> isUpperAscii c"
  by (auto simp: toLowerCase_def lowerChar_not_upper)

lemma set_replaceSpaces:
  "x \<in> set (replaceSpaces r s) \<Longrightarrow> x \<in> set r \<or> (x \<in> set s \<and> \<not> isSpaceChar x)"
proof (induction r s rule: replaceSpaces.induct)
  case (1 r)
  then show ?case by simp
next
  case (2 r c cs)
  show ?case
  proof (cases "isSpaceChar c")
    case True
    with 2 have "x \<in> set r \<or> x \<in> set (replaceSpaces r (dropWhile isSpaceChar cs))" by simp
    with 2 True have "x \<in> set r \<or> (x \<in> set (dropWhile isSpaceChar cs) \<and> \<not> isSpaceChar x)"
      by blast
    then show ?thesis by (auto dest: set_dropWhileD)
  next
    case False
    with 2 show ?thesis by auto
  qed
qed

lemma replaceSpaces_id: "\<forall>c\<in>set s. \<not> isSpaceChar c \<Longrightarrow> replaceSpaces r s = s"
  by (induction s) auto

lemma normalTag_internalForm: "normalTag (internalForm t)"
  unfolding normalTag_def internalForm_def
proof
  fix c assume "c \<in> set (replaceSpaces ''-'' (toLowerCase t))"
  then have "c \<in> set ''-'' \<or> (c \<in> set (toLowerCase t) \<and> \<not> isSpaceChar c)"
    by (rule set_replaceSpaces)
  then show "lowerChar c = c \<and> \<not> isSpaceChar c"
    by (auto simp: lower_hyphen hyphen_nospace toLowerCase_def lowerChar_idem)
qed

lemma normalTag_lower: "normalTag t \<Longrightarrow> toLowerCase t = t"
  by (simp add: normalTag_def toLowerCase_def map_idI)

lemma normalTag_replace: "normalTag t \<Longrightarrow> replaceSpaces r t = t"
  by (simp add: normalTag_def replaceSpaces_id)

lemma normalTag_internal_id: "normalTag t \<Longrightarrow> internalForm t = t"
  by (simp add: internalForm_def normalTag_lower normalTag_replace)

text \<open>
  Of the twelve properties of \<^verbatim>\<open>Object.prototype\<close>, a lower-cased key can only spell the
  two without a capital letter.
\<close>

lemma lower_proto_key:
  assumes "toLowerCase r \<in> set objectPrototypeKeys"
  shows "toLowerCase r = ''constructor'' \<or> toLowerCase r = ''__proto__''"
proof -
  have h: "\<forall>c\<in>set (toLowerCase r). \<not> isUpperAscii c"
    using toLowerCase_not_upper by blast
  have u: "isUpperAscii CHR ''G''" "isUpperAscii CHR ''S''" "isUpperAscii CHR ''O''"
    "isUpperAscii CHR ''P''" "isUpperAscii CHR ''E''" "isUpperAscii CHR ''L''"
    by (simp_all add: isUpperAscii_def)
  from assms consider
      "toLowerCase r = ''constructor''" | "toLowerCase r = ''__proto__''"
    | "toLowerCase r = ''__defineGetter__''" | "toLowerCase r = ''__defineSetter__''"
    | "toLowerCase r = ''hasOwnProperty''" | "toLowerCase r = ''__lookupGetter__''"
    | "toLowerCase r = ''__lookupSetter__''" | "toLowerCase r = ''isPrototypeOf''"
    | "toLowerCase r = ''propertyIsEnumerable''" | "toLowerCase r = ''toString''"
    | "toLowerCase r = ''valueOf''" | "toLowerCase r = ''toLocaleString''"
    unfolding objectPrototypeKeys_def by fastforce
  then show ?thesis
  proof cases
    case 3 with h u show ?thesis by (metis list.set_intros)
  next
    case 4 with h u show ?thesis by (metis list.set_intros)
  next
    case 5 with h u show ?thesis by (metis list.set_intros)
  next
    case 6 with h u show ?thesis by (metis list.set_intros)
  next
    case 7 with h u show ?thesis by (metis list.set_intros)
  next
    case 8 with h u show ?thesis by (metis list.set_intros)
  next
    case 9 with h u show ?thesis by (metis list.set_intros)
  next
    case 10 with h u show ?thesis by (metis list.set_intros)
  next
    case 11 with h u show ?thesis by (metis list.set_intros)
  next
    case 12 with h u show ?thesis by (metis list.set_intros)
  qed auto
qed

lemma lower_in_proto: "(toLowerCase r \<in> set objectPrototypeKeys) = inheritedName r"
proof
  assume "toLowerCase r \<in> set objectPrototypeKeys"
  then show "inheritedName r"
    using lower_proto_key[of r] by (simp add: inheritedName_def)
next
  assume "inheritedName r"
  then show "toLowerCase r \<in> set objectPrototypeKeys"
    by (auto simp: inheritedName_def objectPrototypeKeys_def)
qed

lemma mapThrowing_Inr:
  "\<forall>x\<in>set xs. f x = Inr (g x) \<Longrightarrow> mapThrowing f xs = Inr (map g xs)"
  by (induction xs) auto

lemma set_uniq: "set (uniq xs) = set xs"
proof (induction xs rule: uniq.induct)
  case 1
  then show ?case by simp
next
  case (2 x xs)
  then show ?case by auto
qed

lemma distinct_uniq: "distinct (uniq xs)"
proof (induction xs rule: uniq.induct)
  case 1
  then show ?case by simp
next
  case (2 x xs)
  then show ?case by (auto simp: set_uniq)
qed

section \<open>Properties of the status model\<close>

lemmas card_defs =
  planTransition_def canChangeStatusLogistics_def canConfirmOrder_def canConfirmReceipt_def
  canReportIssue_def availableStatusesForDropdown_def defaultShipmentStatuses_def
  dropdownFilter_def handleStatusChange_def handleConfirmOrder_def handleConfirmReceipt_def
  handleReportIssueConfirm_def

text \<open>
  Claim C1, as the code has it. For a shipment in pending-confirmation, the request of role
  logistics for the target cancelled is carried out whatever the confirmation flag is:
  the menu lists cancelled when the flag is false (second branch of the filter) and when
  it is true (the branch commented "Allow cancellation by logistics even if confirmed"),
  and \<^verbatim>\<open>handleStatusChange\<close> calls \<^verbatim>\<open>onUpdateStatus\<close> with the tags \<^verbatim>\<open>['cancelled']\<close>.
\<close>

theorem C1_cancel_pending_by_logistics:
  "status s = PendingConfirmation \<Longrightarrow>
   canChangeStatusLogistics Logistics s \<and>
   Cancelled \<in> set (availableStatusesForDropdown Logistics s) \<and>
   handleStatusChange Logistics s Cancelled =
     OnUpdateStatus (id_shipment s) Cancelled None [''cancelled''] \<and>
   planTransition Logistics s Cancelled issueText =
     Inr (OnUpdateStatus (id_shipment s) Cancelled None [''cancelled''])"
  by (simp add: card_defs)

theorem C1_cancel_pending_by_logistics_witness:
  "status exampleShipment = PendingConfirmation \<and> isOrderConfirmed exampleShipment \<and>
   Cancelled \<in> set (availableStatusesForDropdown Logistics exampleShipment) \<and>
   planTransition Logistics exampleShipment Cancelled [] =
     Inr (OnUpdateStatus ''shp_1'' Cancelled None [''cancelled''])"
  using C1_cancel_pending_by_logistics [of exampleShipment "[]"]
  by (simp add: exampleShipment_def)

text \<open>
  The claim as stated fails: the example shipment is pending, its confirmation flag is
  true, and the cancellation requested by logistics is not rejected.
\<close>

theorem C1_counterexample:
  "status exampleShipment = PendingConfirmation \<and> isOrderConfirmed exampleShipment \<and>
   availableStatusesForDropdown Logistics exampleShipment = [Cancelled] \<and>
   handleStatusChange Logistics exampleShipment Cancelled =
     OnUpdateStatus ''shp_1'' Cancelled None [''cancelled''] \<and>
   planTransition Logistics exampleShipment Cancelled [] \<noteq>
     Inl (InvalidTransition PendingConfirmation Cancelled Logistics)"
  by (simp add: card_defs exampleShipment_def)

text \<open>
  Claim C2, as the code has it. A cancelled shipment has no outgoing transition, for any
  role and any target: the menu is empty and the handler only shows a toast. A delivered
  shipment has none for the track team, and none for logistics towards in-transit,
  delivered or with-issue.
\<close>

theorem C2_terminal_states:
  "(status s = Cancelled \<longrightarrow>
      planTransition role s target issueText = Inl (InvalidTransition Cancelled target role) \<and>
      availableStatusesForDropdown role s = [] \<and>
      handleStatusChange role s target = Toast ''Action Invalid'') \<and>
   (status s = Delivered \<and> (role = TrackTeam \<or> target \<in> {InTransit, Delivered, WithIssue}) \<longrightarrow>
      planTransition role s target issueText = Inl (InvalidTransition Delivered target role))"
  by (auto simp: card_defs)

theorem C2_terminal_states_witness:
  "status (exampleShipment\<lparr>status := Cancelled\<rparr>) = Cancelled \<and>
   planTransition Logistics (exampleShipment\<lparr>status := Cancelled\<rparr>) PendingConfirmation [] =
     Inl (InvalidTransition Cancelled PendingConfirmation Logistics) \<and>
   status (exampleShipment\<lparr>status := Delivered\<rparr>) = Delivered \<and>
   planTransition TrackTeam (exampleShipment\<lparr>status := Delivered\<rparr>) WithIssue ''broken'' =
     Inl (InvalidTransition Delivered WithIssue TrackTeam)"
  using C2_terminal_states [of "exampleShipment\<lparr>status := Cancelled\<rparr>" Logistics PendingConfirmation "[]"]
    C2_terminal_states [of "exampleShipment\<lparr>status := Delivered\<rparr>" TrackTeam WithIssue "''broken''"]
  by simp

text \<open>
  The claim as stated fails for delivered: the menu of logistics lists
  pending-confirmation on a delivered shipment (the last branch of the filter), and the
  handler, which only refuses a cancelled shipment, carries the request out.
\<close>

theorem C2_counterexample:
  "status (exampleShipment\<lparr>status := Delivered\<rparr>) = Delivered \<and>
   availableStatusesForDropdown Logistics (exampleShipment\<lparr>status := Delivered\<rparr>) =
     [PendingConfirmation, Cancelled] \<and>
   handleStatusChange Logistics (exampleShipment\<lparr>status := Delivered\<rparr>) PendingConfirmation =
     OnUpdateStatus ''shp_1'' PendingConfirmation None [''pending-confirmation''] \<and>
   planTransition Logistics (exampleShipment\<lparr>status := Delivered\<rparr>) PendingConfirmation [] =
     Inr (OnUpdateStatus ''shp_1'' PendingConfirmation None [''pending-confirmation''])"
  by (simp add: card_defs exampleShipment_def)

section \<open>Properties of the tag merge\<close>

lemma knownMappings_values:
  "map_of knownMappings k = Some v \<Longrightarrow> v \<in> set ALL_POSSIBLE_APP_MANAGED_TAGS"
  by (auto simp: knownMappings_def ALL_POSSIBLE_APP_MANAGED_TAGS_def
      ALL_MANAGEABLE_STATUS_TAG_IDS_def defaultShipmentStatuses_def split: if_splits)

lemma normalize_cases:
  "normalizeHoldedTagToInternal tag =
     (case rawTagValue tag of
        None \<Rightarrow> JsString []
      | Some r \<Rightarrow>
          (case map_of knownMappings (toLowerCase r) of
             Some v \<Rightarrow> JsString v
           | None \<Rightarrow> if inheritedName r then JsObject (toLowerCase r)
                     else JsString (internalForm r)))"
  by (cases tag)
     (simp_all add: normalizeHoldedTagToInternal_def objectLookup_def lower_in_proto
        internalForm_def Let_def split: option.splits)

lemma convert_normal:
  "normalTag t \<Longrightarrow> convertInternalTagToHoldedFormat (JsString t) = Inr (holdedFormat t)"
  by (simp add: convertInternalTagToHoldedFormat_def holdedFormat_def normalTag_lower Let_def)

lemma other_elems:
  assumes "noInheritedName live"
    and "v \<in> set (otherNonStatusTagsToPreserveInternalFormat live)"
  shows "\<exists>n. v = JsString n \<and> normalTag n \<and> n \<noteq> [] \<and> n \<notin> set ALL_POSSIBLE_APP_MANAGED_TAGS"
proof -
  from assms(2) obtain tag where tag: "tag \<in> set live" "v = normalizeHoldedTagToInternal tag"
    and tr: "truthy v" and nm: "v \<notin> JsString ` set ALL_POSSIBLE_APP_MANAGED_TAGS"
    by (auto simp: otherNonStatusTagsToPreserveInternalFormat_def existingTagsInternalFormat_def)
  show ?thesis
  proof (cases "rawTagValue tag")
    case None
    with tag tr show ?thesis by (simp add: normalize_cases truthy_def)
  next
    case (Some r)
    with assms(1) tag have ni: "\<not> inheritedName r"
      by (auto simp: noInheritedName_def list_all_iff)
    show ?thesis
    proof (cases "map_of knownMappings (toLowerCase r)")
      case None
      with Some ni tag have "v = JsString (internalForm r)" by (simp add: normalize_cases)
      with tr nm show ?thesis by (auto simp: normalTag_internalForm truthy_def)
    next
      case (Some m)
      with \<open>rawTagValue tag = Some r\<close> tag have "v = JsString m" by (simp add: normalize_cases)
      with nm knownMappings_values[OF Some] show ?thesis by auto
    qed
  qed
qed


lemma combined_convert:
  assumes "noInheritedName live"
    and "v \<in> set (combinedTagsInternalFormat live desired)"
  shows "convertInternalTagToHoldedFormat v = Inr (holdedOf v)"
proof -
  from assms(2) consider
      "v \<in> set (otherNonStatusTagsToPreserveInternalFormat live)"
    | "v \<in> set (newAppManagedTagsFromClientInternalFormat desired)"
    by (auto simp: combinedTagsInternalFormat_def set_uniq)
  then show ?thesis
  proof cases
    case 1
    from other_elems[OF assms(1) 1] show ?thesis by (auto simp: convert_normal)
  next
    case 2
    then obtain d where "v = JsString (internalForm d)"
      by (auto simp: newAppManagedTagsFromClientInternalFormat_def internalForm_def)
    then show ?thesis by (simp add: convert_normal normalTag_internalForm)
  qed
qed

lemma mergeTags_returns:
  assumes "noInheritedName live"
  shows "mergeTags live desired = Inr (map holdedOf (combinedTagsInternalFormat live desired))"
  unfolding mergeTags_def
  by (rule mapThrowing_Inr) (simp add: combined_convert[OF assms])

lemma holdedOf_other:
  assumes "noInheritedName live"
  shows "holdedOf ` set (otherNonStatusTagsToPreserveInternalFormat live) =
     {n. JsString n \<in> normalizeHoldedTagToInternal ` set live \<and> n \<noteq> [] \<and>
         n \<notin> set ALL_POSSIBLE_APP_MANAGED_TAGS}" (is "?L = ?R")
proof
  show "?L \<subseteq> ?R"
  proof
    fix h assume "h \<in> ?L"
    then obtain v where v: "v \<in> set (otherNonStatusTagsToPreserveInternalFormat live)" "h = holdedOf v"
      by auto
    from other_elems[OF assms v(1)] obtain n where
      n: "v = JsString n" "n \<noteq> []" "n \<notin> set ALL_POSSIBLE_APP_MANAGED_TAGS" by auto
    with v have "h = n" by (simp add: holdedFormat_def)
    moreover from v(1) n have "JsString n \<in> normalizeHoldedTagToInternal ` set live"
      by (auto simp: otherNonStatusTagsToPreserveInternalFormat_def existingTagsInternalFormat_def)
    ultimately show "h \<in> ?R" using n by simp
  qed
next
  show "?R \<subseteq> ?L"
  proof
    fix n assume "n \<in> ?R"
    then have n: "JsString n \<in> normalizeHoldedTagToInternal ` set live" "n \<noteq> []"
      "n \<notin> set ALL_POSSIBLE_APP_MANAGED_TAGS" by auto
    then have "JsString n \<in> set (otherNonStatusTagsToPreserveInternalFormat live)"
      by (auto simp: otherNonStatusTagsToPreserveInternalFormat_def existingTagsInternalFormat_def
          truthy_def)
    moreover from n have "holdedOf (JsString n) = n" by (simp add: holdedFormat_def)
    ultimately show "n \<in> ?L" by force
  qed
qed

lemma holdedOf_new:
  "holdedOf ` set (newAppManagedTagsFromClientInternalFormat desired) =
     (\<lambda>d. holdedFormat (internalForm d)) ` set desired"
  by (auto simp: newAppManagedTagsFromClientInternalFormat_def internalForm_def image_iff)

lemma normalize_foreign:
  assumes "rawTagValue tag = Some t" and "foreignTag t"
  shows "normalizeHoldedTagToInternal tag = JsString t"
proof -
  from assms(2) have l: "toLowerCase t = t" and i: "internalForm t = t"
    by (simp_all add: foreignTag_def normalTag_lower normalTag_internal_id)
  from assms(2) have "map_of knownMappings (toLowerCase t) = None"
    by (simp add: l foreignTag_def map_of_eq_None_iff)
  with assms i show ?thesis by (simp add: normalize_cases foreignTag_def)
qed

lemma replaceSpaces_no_hyphen:
  "CHR ''-'' \<notin> set (replaceSpaces ''-'' s) \<Longrightarrow> replaceSpaces ''-'' s = s"
proof (induction "''-''" s rule: replaceSpaces.induct)
  case 1
  then show ?case by simp
next
  case (2 c cs)
  then show ?case by (cases "isSpaceChar c") auto
qed

lemma internalForm_eq_plain:
  assumes "CHR ''-'' \<notin> set k" and "\<forall>c\<in>set k. \<not> isSpaceChar c"
  shows "internalForm r = k \<longleftrightarrow> toLowerCase r = k"
proof
  assume "internalForm r = k"
  with assms(1) show "toLowerCase r = k"
    using replaceSpaces_no_hyphen[of "toLowerCase r"] by (simp add: internalForm_def)
next
  assume "toLowerCase r = k"
  with assms(2) show "internalForm r = k"
    by (simp add: internalForm_def replaceSpaces_id)
qed

lemma plain_constructor:
  "CHR ''-'' \<notin> set ''constructor''" "\<forall>c\<in>set ''constructor''. \<not> isSpaceChar c"
  "CHR ''-'' \<notin> set ''__proto__''" "\<forall>c\<in>set ''__proto__''. \<not> isSpaceChar c"
  by (simp_all add: isSpaceChar_def)

lemma inheritedName_internalForm: "inheritedName (internalForm r) = inheritedName r"
proof -
  have l: "toLowerCase (internalForm r) = internalForm r"
    by (simp add: normalTag_lower normalTag_internalForm)
  show ?thesis
    unfolding inheritedName_def l
    using internalForm_eq_plain[OF plain_constructor(1,2), of r]
      internalForm_eq_plain[OF plain_constructor(3,4), of r]
    by simp
qed

lemma plain_keys:
  "k \<in> set (map fst knownMappings) \<Longrightarrow> CHR ''-'' \<notin> set k \<and> (\<forall>c\<in>set k. \<not> isSpaceChar c)"
  by (auto simp: knownMappings_def isSpaceChar_def)

lemma key_internalForm:
  "map_of knownMappings (toLowerCase r) = None \<Longrightarrow> internalForm r \<notin> set (map fst knownMappings)"
proof
  assume n: "map_of knownMappings (toLowerCase r) = None"
    and k: "internalForm r \<in> set (map fst knownMappings)"
  from plain_keys[OF k] have "toLowerCase r = internalForm r"
    using internalForm_eq_plain[of "internalForm r" r] by simp
  with k n show False by (simp add: map_of_eq_None_iff)
qed


lemma merged_set:
  assumes "noInheritedName live"
  shows "set (map holdedOf (combinedTagsInternalFormat live desired)) =
       {n. JsString n \<in> normalizeHoldedTagToInternal ` set live \<and> n \<noteq> [] \<and>
           n \<notin> set ALL_POSSIBLE_APP_MANAGED_TAGS}
       \<union> (\<lambda>d. holdedFormat (internalForm d)) ` set desired"
  by (simp add: combinedTagsInternalFormat_def set_uniq image_Un holdedOf_other[OF assms]
      holdedOf_new)

lemma foreign_of_live:
  assumes "noInheritedName live" and "JsString n \<in> normalizeHoldedTagToInternal ` set live"
    and "n \<noteq> []" and "n \<notin> set ALL_POSSIBLE_APP_MANAGED_TAGS"
  shows "foreignTag n"
proof -
  from assms(2) obtain tag where tag: "tag \<in> set live" "normalizeHoldedTagToInternal tag = JsString n"
    by force
  show ?thesis
  proof (cases "rawTagValue tag")
    case None
    with tag assms(3) show ?thesis by (simp add: normalize_cases)
  next
    case (Some r)
    with assms(1) tag have ni: "\<not> inheritedName r"
      by (auto simp: noInheritedName_def list_all_iff)
    show ?thesis
    proof (cases "map_of knownMappings (toLowerCase r)")
      case None
      with Some ni tag have n: "n = internalForm r" by (simp add: normalize_cases)
      with assms(3,4) ni key_internalForm[OF None] show ?thesis
        by (simp add: foreignTag_def normalTag_internalForm inheritedName_internalForm)
    next
      case (Some m)
      with \<open>rawTagValue tag = Some r\<close> tag have "n = m" by (simp add: normalize_cases)
      with assms(4) knownMappings_values[OF Some] show ?thesis by simp
    qed
  qed
qed

lemma normalTag_removeHyphens: "normalTag t \<Longrightarrow> normalTag (removeHyphens t)"
  by (simp add: normalTag_def removeHyphens_def)

lemma normalTag_holdedFormat: "normalTag t \<Longrightarrow> normalTag (holdedFormat t)"
  by (simp add: holdedFormat_def normalTag_removeHyphens)

lemma managed_not_inherited:
  "list_all (\<lambda>m. \<not> inheritedName (removeHyphens m)) ALL_POSSIBLE_APP_MANAGED_TAGS"
  by code_simp

lemma desired_not_inherited:
  assumes "\<not> inheritedName d"
  shows "\<not> inheritedName (holdedFormat (internalForm d))"
proof (cases "internalForm d \<in> set ALL_POSSIBLE_APP_MANAGED_TAGS")
  case True
  with managed_not_inherited show ?thesis by (simp add: holdedFormat_def list_all_iff)
next
  case False
  with assms show ?thesis by (simp add: holdedFormat_def inheritedName_internalForm)
qed

lemma normalize_desired:
  assumes "normalTag h" and "normalizeHoldedTagToInternal (TagString h) = JsString m"
    and "m \<notin> set ALL_POSSIBLE_APP_MANAGED_TAGS"
  shows "m = h"
proof (cases "map_of knownMappings (toLowerCase h)")
  case None
  with assms(2) have "m = internalForm h"
    by (auto simp: normalize_cases split: if_splits)
  with assms(1) show ?thesis by (simp add: normalTag_internal_id)
next
  case (Some v)
  with assms(2) have "m = v" by (simp add: normalize_cases)
  with assms(3) knownMappings_values[OF Some] show ?thesis by simp
qed

lemma union_absorb: "A \<subseteq> B \<Longrightarrow> B \<subseteq> A \<union> D \<Longrightarrow> B \<union> D = A \<union> D"
  by blast

lemma mergeTags_idempotent:
  assumes live: "noInheritedName live" and des: "list_all (\<lambda>d. \<not> inheritedName d) desired"
  shows "\<exists>out1 out2. mergeTags live desired = Inr out1 \<and>
           mergeTags (map TagString out1) desired = Inr out2 \<and> set out2 = set out1"
proof -
  let ?F = "{n. JsString n \<in> normalizeHoldedTagToInternal ` set live \<and> n \<noteq> [] \<and>
                n \<notin> set ALL_POSSIBLE_APP_MANAGED_TAGS}"
  let ?D = "(\<lambda>d. holdedFormat (internalForm d)) ` set desired"
  let ?out1 = "map holdedOf (combinedTagsInternalFormat live desired)"
  let ?live2 = "map TagString ?out1"
  let ?out2 = "map holdedOf (combinedTagsInternalFormat ?live2 desired)"
  have s1: "set ?out1 = ?F \<union> ?D" by (rule merged_set[OF live])
  have F: "foreignTag n" if "n \<in> ?F" for n
    using that foreign_of_live[OF live] by simp
  have D: "normalTag h \<and> \<not> inheritedName h" if "h \<in> ?D" for h
    using that des
    by (auto simp: list_all_iff normalTag_holdedFormat normalTag_internalForm desired_not_inherited)
  have live2: "noInheritedName ?live2"
    unfolding noInheritedName_def list_all_iff
  proof
    fix tag assume "tag \<in> set ?live2"
    then obtain h where h: "tag = TagString h" "h \<in> set ?out1" by auto
    from h(2) s1 F D have "\<not> inheritedName h" by (auto simp: foreignTag_def)
    with h show "case rawTagValue tag of None \<Rightarrow> True | Some t \<Rightarrow> \<not> inheritedName t" by simp
  qed
  let ?F2 = "{n. JsString n \<in> normalizeHoldedTagToInternal ` set ?live2 \<and> n \<noteq> [] \<and>
                n \<notin> set ALL_POSSIBLE_APP_MANAGED_TAGS}"
  have s2: "set ?out2 = ?F2 \<union> ?D" by (rule merged_set[OF live2])
  have sub1: "?F \<subseteq> ?F2"
  proof
    fix n assume n: "n \<in> ?F"
    then have "n \<in> set ?out1" using s1 by blast
    moreover from F[OF n] have "normalizeHoldedTagToInternal (TagString n) = JsString n"
      by (simp add: normalize_foreign)
    ultimately have "JsString n \<in> normalizeHoldedTagToInternal ` set ?live2" by force
    with n show "n \<in> ?F2" by simp
  qed
  have sub2: "?F2 \<subseteq> ?F \<union> ?D"
  proof
    fix m assume m: "m \<in> ?F2"
    then obtain h where h: "h \<in> set ?out1" "normalizeHoldedTagToInternal (TagString h) = JsString m"
      and m': "m \<notin> set ALL_POSSIBLE_APP_MANAGED_TAGS" by force
    from h(1) s1 F D have "normalTag h" by (auto simp: foreignTag_def)
    from normalize_desired[OF this h(2) m'] h(1) s1 show "m \<in> ?F \<union> ?D" by simp
  qed
  have "set ?out2 = set ?out1"
    unfolding s1 s2 by (rule union_absorb[OF sub1 sub2])
  with mergeTags_returns[OF live, of desired] mergeTags_returns[OF live2, of desired]
  show ?thesis by (intro exI conjI)
qed

text \<open>
  Claim C3, as the code has it. When no live tag spells an inherited property name, the
  merge returns, and its result holds exactly: the live tags in internal form (lower case,
  white space as hyphens, Holded spellings mapped back) that are not empty and not managed
  by the application, and the desired tags in internal form converted to the Holded format
  (managed tags without their hyphens). In particular every foreign tag text of the live
  document, such as \<open>''sensor''\<close>, is in the result, whatever the desired tags are.
\<close>

theorem C3_mergeTags:
  assumes "noInheritedName live"
  shows "\<exists>out. mergeTags live desired = Inr out \<and>
     set out =
       {n. JsString n \<in> normalizeHoldedTagToInternal ` set live \<and> n \<noteq> [] \<and>
           n \<notin> set ALL_POSSIBLE_APP_MANAGED_TAGS}
       \<union> (\<lambda>d. holdedFormat (internalForm d)) ` set desired \<and>
     (\<forall>tag\<in>set live. \<forall>t. rawTagValue tag = Some t \<and> foreignTag t \<longrightarrow> t \<in> set out)"
proof -
  let ?out = "map holdedOf (combinedTagsInternalFormat live desired)"
  have r: "mergeTags live desired = Inr ?out" by (rule mergeTags_returns[OF assms])
  have s: "set ?out =
       {n. JsString n \<in> normalizeHoldedTagToInternal ` set live \<and> n \<noteq> [] \<and>
           n \<notin> set ALL_POSSIBLE_APP_MANAGED_TAGS}
       \<union> (\<lambda>d. holdedFormat (internalForm d)) ` set desired"
    by (rule merged_set[OF assms])
  have f: "\<forall>tag\<in>set live. \<forall>t. rawTagValue tag = Some t \<and> foreignTag t \<longrightarrow> t \<in> set ?out"
  proof (intro ballI allI impI)
    fix tag t assume tag: "tag \<in> set live" and t: "rawTagValue tag = Some t \<and> foreignTag t"
    then have "normalizeHoldedTagToInternal tag = JsString t" by (simp add: normalize_foreign)
    with tag have "JsString t \<in> normalizeHoldedTagToInternal ` set live" by force
    with t show "t \<in> set ?out" unfolding s by (simp add: foreignTag_def)
  qed
  from r s f show ?thesis by blast
qed

theorem C3_mergeTags_witness:
  "noInheritedName exampleLiveTags \<and> foreignTag ''sensor'' \<and>
   (\<exists>out. mergeTags exampleLiveTags [''delivered'', ''order-confirmed''] = Inr out \<and>
          ''sensor'' \<in> set out)"
proof -
  have a: "noInheritedName exampleLiveTags" by code_simp
  have b: "foreignTag ''sensor''" by code_simp
  have c: "TagString ''sensor'' \<in> set exampleLiveTags" by (simp add: exampleLiveTags_def)
  from C3_mergeTags[OF a, of "[''delivered'', ''order-confirmed'']"] obtain out where
    o: "mergeTags exampleLiveTags [''delivered'', ''order-confirmed''] = Inr out"
    and f: "\<forall>tag\<in>set exampleLiveTags. \<forall>t. rawTagValue tag = Some t \<and> foreignTag t \<longrightarrow> t \<in> set out"
    by blast
  from f c b have "''sensor'' \<in> set out" by force
  with a b o show ?thesis by blast
qed

text \<open>
  The claim as stated fails: the foreign live tag \<open>''Sensor''\<close> is not in the result, which
  holds its lower case instead, and the desired tag \<open>''in-transit''\<close> is not in the result,
  which holds its Holded spelling.
\<close>

theorem C3_counterexample:
  "mergeTags [TagString ''Sensor''] [''in-transit''] = Inr [''sensor'', ''intransit'']"
  by code_simp

lemma mergeTags_idempotent_example:
  "noInheritedName exampleLiveTags \<and> list_all (\<lambda>d. \<not> inheritedName d) [''delivered'', ''urgent''] \<and>
   mergeTags exampleLiveTags [''delivered'', ''urgent''] = Inr [''sensor'', ''race-day'', ''delivered'', ''urgent''] \<and>
   mergeTags (map TagString [''sensor'', ''race-day'', ''delivered'', ''urgent'']) [''delivered'', ''urgent'']
     = Inr [''sensor'', ''race-day'', ''urgent'', ''delivered'']"
  by code_simp

text \<open>
  Claim C9. Applying the merge to its own result with the same desired tags gives the same
  set of tags as long as no live tag and no desired tag spells an inherited property name:
  lemma \<open>mergeTags_idempotent\<close>. On such a name the claim fails. With the desired tag
  \<open>''constructor''\<close> the first merge writes the tag; in the second it is a live tag,
  \<^verbatim>\<open>knownMappings['constructor']\<close> is the inherited function \<^verbatim>\<open>Object\<close>, and
  \<^verbatim>\<open>convertInternalTagToHoldedFormat\<close> throws on it. With the live tag \<open>''constructor''\<close> the
  first merge throws already, whatever the desired tags are.
\<close>

theorem C9_second_merge_throws:
  "mergeTags [] [''constructor''] = Inr [''constructor''] \<and>
   mergeTags (map TagString [''constructor'']) [''constructor''] = Inl TypeError \<and>
   mergeTags [TagString ''constructor''] [''delivered'', ''order-confirmed''] = Inl TypeError"
  by code_simp

section \<open>Properties of the update route\<close>



section \<open>Properties of reading a document\<close>

lemma invoiceDate_valid:
  "validDate invoice \<Longrightarrow> \<exists>c. invoiceDateOrNow lib invoice = Inr c"
  by (auto simp: validDate_def invoiceDateOrNow_def unixToISOString_def split: option.splits)

lemma invoiceDate_invalid:
  "\<not> validDate invoice \<Longrightarrow> invoiceDateOrNow lib invoice = Inl RangeError"
  by (auto simp: validDate_def invoiceDateOrNow_def unixToISOString_def split: option.splits)

lemma decode_invalid: "\<not> validDate invoice \<Longrightarrow> decode lib invoice = Inl RangeError"
  by (simp add: decode_def invoiceDate_invalid Let_def split: prod.splits option.splits sum.splits)

lemma decode_valid:
  assumes "invoiceDateOrNow lib invoice = Inr c"
  shows "decode lib invoice =
     Inr \<lparr>id_shipment = snd (titleAndId invoice (parseShipmentNotes lib (inv_notes invoice))),
          title = fst (titleAndId invoice (parseShipmentNotes lib (inv_notes invoice))),
          status = statusTag invoice,
          products = map productOf (case inv_products invoice of Some ps \<Rightarrow> ps | None \<Rightarrow> []),
          estimatedDelivery =
            (case nonEmpty (p_estimatedDelivery (parseShipmentNotes lib (inv_notes invoice))) of
               Some e \<Rightarrow> e | None \<Rightarrow> c),
          actualDelivery = p_actualDelivery (parseShipmentNotes lib (inv_notes invoice)),
          issueDescription = p_issueDescription (parseShipmentNotes lib (inv_notes invoice)),
          origin = (case nonEmpty (p_origin (parseShipmentNotes lib (inv_notes invoice))) of
                      Some v \<Rightarrow> v | None \<Rightarrow> ''N/A''),
          destination = (case nonEmpty (p_destination (parseShipmentNotes lib (inv_notes invoice))) of
                      Some v \<Rightarrow> v | None \<Rightarrow> ''N/A''),
          isOrderConfirmed =
            (JsString ''order-confirmed'' \<in> set (normalizedInvTags invoice) \<or>
             (case p_isOrderConfirmed (parseShipmentNotes lib (inv_notes invoice)) of
                Some b \<Rightarrow> b | None \<Rightarrow> False)),
          createdAt = c,
          holdedInvoiceId = Some (inv_id invoice),
          tags = invTags invoice\<rparr>"
  using assms
  by (simp add: decode_def Let_def split: prod.splits option.splits)

lemma statusTag_priority:
  "statusTag invoice =
     (if hasStatusTag invoice WithIssue then WithIssue
      else if hasStatusTag invoice Cancelled then Cancelled
      else if hasStatusTag invoice Delivered then Delivered
      else if hasStatusTag invoice InTransit then InTransit
      else PendingConfirmation)"
  by (simp add: statusTag_def statusPriority_def hasStatusTag_def)


lemma statusMap_value:
  "map_of tagToInternalStatusMap k = Some v \<Longrightarrow> removeHyphens v = k"
  by (auto simp: tagToInternalStatusMap_def removeHyphens_def split: if_splits)

lemma statusMap_key:
  "map_of tagToInternalStatusMap (removeHyphens (statusId st)) = Some (statusId st)"
  by (cases st) (simp_all add: tagToInternalStatusMap_def removeHyphens_def)

lemma normalized_is_status:
  "((case objectLookup tagToInternalStatusMap (removeHyphens n) of
       Some v \<Rightarrow> v | None \<Rightarrow> JsString n) = JsString (statusId st))
   = (removeHyphens n = removeHyphens (statusId st))"
proof (cases "map_of tagToInternalStatusMap (removeHyphens n)")
  case None
  then have "removeHyphens n \<noteq> removeHyphens (statusId st)"
    using statusMap_key[of st] by auto
  moreover from this have "n \<noteq> statusId st" by auto
  ultimately show ?thesis using None by (simp add: objectLookup_def)
next
  case (Some v)
  then show ?thesis
    using statusMap_value[OF Some] statusMap_key[of st] by (auto simp: objectLookup_def)
qed

lemma invTags_alt:
  "invTags invoice =
     filter (\<lambda>t. t \<noteq> [])
       (map (\<lambda>tag. internalForm (tagText tag))
          (case inv_tags invoice of Some ts \<Rightarrow> ts | None \<Rightarrow> []))"
proof -
  have "(\<lambda>tag. replaceSpaces ''-''
            (toLowerCase (case tag of TagString t \<Rightarrow> t | TagNamed n \<Rightarrow> n | TagOther \<Rightarrow> [])))
        = (\<lambda>tag. internalForm (tagText tag))"
    by (rule ext) (simp add: internalForm_def split: HoldedTag.splits)
  then show ?thesis by (simp add: invTags_def)
qed

lemma removeHyphens_status_nonempty: "removeHyphens (statusId st) \<noteq> []"
  by (cases st) (simp_all add: removeHyphens_def)

lemma hasStatusTag_iff:
  "hasStatusTag invoice st =
     (\<exists>tag\<in>set (case inv_tags invoice of Some ts \<Rightarrow> ts | None \<Rightarrow> []).
        removeHyphens (internalForm (tagText tag)) = removeHyphens (statusId st))"
proof -
  have "hasStatusTag invoice st =
      (\<exists>n\<in>set (invTags invoice). removeHyphens n = removeHyphens (statusId st))"
  proof -
    have "hasStatusTag invoice st =
        (\<exists>n\<in>set (invTags invoice).
           (case objectLookup tagToInternalStatusMap (removeHyphens n) of
              Some v \<Rightarrow> v | None \<Rightarrow> JsString n) = JsString (statusId st))"
      unfolding hasStatusTag_def normalizedInvTags_def set_map image_iff by metis
    then show ?thesis by (simp only: normalized_is_status)
  qed
  also have "\<dots> = (\<exists>tag\<in>set (case inv_tags invoice of Some ts \<Rightarrow> ts | None \<Rightarrow> []).
        removeHyphens (internalForm (tagText tag)) = removeHyphens (statusId st))"
    using removeHyphens_status_nonempty[of st]
    by (auto simp: invTags_alt removeHyphens_def)
  finally show ?thesis .
qed


lemma decode_returns_iff: "(\<exists>r. decode lib invoice = Inr r) = validDate invoice"
proof (cases "validDate invoice")
  case True
  then obtain c where "invoiceDateOrNow lib invoice = Inr c"
    using invoiceDate_valid by blast
  with True show ?thesis by (simp add: decode_valid)
next
  case False
  then show ?thesis by (simp add: decode_invalid)
qed

lemma decode_status: "decode lib invoice = Inr r \<Longrightarrow> status r = statusTag invoice"
proof -
  assume d: "decode lib invoice = Inr r"
  then have "validDate invoice" using decode_returns_iff by blast
  then obtain c where "invoiceDateOrNow lib invoice = Inr c"
    using invoiceDate_valid by blast
  from decode_valid[OF this] d show ?thesis by auto
qed

lemma descMatch_second_group: "descMatch t = Some (g1, g2) \<Longrightarrow> g2 = None"
  by (induction t) (auto split: if_splits)

lemma titleAndId_id:
  "snd (titleAndId invoice notesData) =
     (case nonEmpty (case find (\<lambda>cf. fst cf = ''shipment_id'')
                            (case inv_customFields invoice of Some cfs \<Rightarrow> cfs | None \<Rightarrow> []) of
                       Some shipmentIdField \<Rightarrow> Some (snd shipmentIdField)
                     | None \<Rightarrow> p_id notesData) of
        Some i \<Rightarrow> i
      | None \<Rightarrow> ''inv_'' @ inv_id invoice)"
  by (auto simp: titleAndId_def Let_def nonEmpty_def dest: descMatch_second_group
      split: option.splits prod.splits if_splits)

lemma titleAndId_id_nonempty: "snd (titleAndId invoice notesData) \<noteq> []"
  by (simp add: titleAndId_id nonEmpty_def split: option.splits if_splits)

lemma decode_id:
  assumes "decode lib invoice = Inr r"
  shows "id_shipment r = snd (titleAndId invoice (parseShipmentNotes lib (inv_notes invoice)))"
proof -
  from assms have "validDate invoice" using decode_returns_iff by blast
  then obtain c where "invoiceDateOrNow lib invoice = Inr c"
    using invoiceDate_valid by blast
  from decode_valid[OF this] assms show ?thesis by auto
qed

lemma decode_total_on_valid_dates:
  assumes "validDate invoice"
  shows "\<exists>r. decode lib invoice = Inr r \<and> id_shipment r \<noteq> [] \<and>
     (nonEmpty (case find (\<lambda>cf. fst cf = ''shipment_id'')
                       (case inv_customFields invoice of Some cfs \<Rightarrow> cfs | None \<Rightarrow> []) of
                  Some shipmentIdField \<Rightarrow> Some (snd shipmentIdField)
                | None \<Rightarrow> p_id (parseShipmentNotes lib (inv_notes invoice))) = None
      \<longrightarrow> id_shipment r = ''inv_'' @ inv_id invoice)"
proof -
  from assms obtain r where r: "decode lib invoice = Inr r"
    using decode_returns_iff by blast
  from decode_id[OF r] show ?thesis
    using r titleAndId_id_nonempty[of invoice] by (auto simp: titleAndId_id)
qed

lemma noNotes_parse: "nonEmpty notes = None \<Longrightarrow> parseShipmentNotes lib notes = emptyPartial"
  by (simp add: parseShipmentNotes_def)

lemma noTags_normalized:
  "inv_tags invoice = None \<or> inv_tags invoice = Some [] \<Longrightarrow> normalizedInvTags invoice = []"
  by (auto simp: normalizedInvTags_def invTags_def)

lemma decode_defaults:
  assumes "noTagsNoNotes invoice" and "validDate invoice"
  shows "\<exists>r c. decode lib invoice = Inr r \<and> invoiceDateOrNow lib invoice = Inr c \<and>
           status r = PendingConfirmation \<and> \<not> isOrderConfirmed r \<and> estimatedDelivery r = c"
proof -
  from assms(2) obtain c where c: "invoiceDateOrNow lib invoice = Inr c"
    using invoiceDate_valid by blast
  from assms(1) have n: "parseShipmentNotes lib (inv_notes invoice) = emptyPartial"
    and t: "normalizedInvTags invoice = []"
    by (simp_all add: noTagsNoNotes_def noNotes_parse noTags_normalized)
  have s: "statusTag invoice = PendingConfirmation"
    by (simp add: statusTag_def t statusPriority_def)
  show ?thesis
    by (simp add: decode_valid[OF c] c n t s emptyPartial_def nonEmpty_def)
qed

lemma decode_status_priority:
  assumes "validDate invoice"
  shows "\<exists>r. decode lib invoice = Inr r \<and>
      status r =
        (if hasStatusTag invoice WithIssue then WithIssue
         else if hasStatusTag invoice Cancelled then Cancelled
         else if hasStatusTag invoice Delivered then Delivered
         else if hasStatusTag invoice InTransit then InTransit
         else PendingConfirmation)"
proof -
  from assms obtain r where r: "decode lib invoice = Inr r"
    using decode_returns_iff by blast
  from decode_status[OF r] have "status r =
        (if hasStatusTag invoice WithIssue then WithIssue
         else if hasStatusTag invoice Cancelled then Cancelled
         else if hasStatusTag invoice Delivered then Delivered
         else if hasStatusTag invoice InTransit then InTransit
         else PendingConfirmation)"
    by (simp only: statusTag_priority)
  with r show ?thesis by blast
qed

lemma decode_in_transit_with_issue:
  assumes "validDate invoice" and "inv_tags invoice = Some ts"
    and "TagString ''in-transit'' \<in> set ts" and "TagString ''with-issue'' \<in> set ts"
  shows "\<exists>r. decode lib invoice = Inr r \<and> status r = WithIssue"
proof -
  have "internalForm ''with-issue'' = ''with-issue''" by code_simp
  with assms(2,4) have "hasStatusTag invoice WithIssue"
    unfolding hasStatusTag_iff by force
  with decode_status_priority[OF assms(1), of lib] show ?thesis by simp
qed

lemma decode_in_transit_with_issue_example:
  "validDate exampleInvoice \<and>
   (\<exists>r. decode exampleLib exampleInvoice = Inr r \<and> status r = WithIssue)"
proof -
  have v: "validDate exampleInvoice" by code_simp
  have t: "inv_tags exampleInvoice =
     Some [TagString ''in-transit'', TagString ''with-issue'', TagNamed ''Sensor'']"
    by (simp add: exampleInvoice_def)
  from decode_in_transit_with_issue[OF v t, of exampleLib] v show ?thesis by simp
qed

text \<open>
  Claim C4. The scan itself is as claimed: on every document whose date is valid the
  decoder returns a record whose status is the first status, in the order with-issue,
  cancelled, delivered, in-transit, pending-confirmation, that the document carries, and
  pending-confirmation when it carries none (lemma \<open>decode_status_priority\<close>; a tag carries
  a status when its text, in lower case and without white space and hyphens, is the name
  of the status without its hyphen, lemma \<open>hasStatusTag_iff\<close>), so a document tagged
  in-transit and with-issue decodes to with-issue (lemma \<open>decode_in_transit_with_issue\<close>).
  The claim speaks of every document, and on a document whose date is beyond the range of
  \<^verbatim>\<open>Date\<close> the decoder yields no status at all: the document below carries the tags
  in-transit and with-issue, the scan settles on with-issue, and the projection then throws
  at \<^verbatim>\<open>toISOString\<close>, which it calls without the \<^verbatim>\<open>isValid\<close> test that
  \<^verbatim>\<open>parseShipmentNotes\<close> makes. With the date of the example invoice the same document
  decodes to with-issue.
\<close>

theorem C4_no_status_on_invalid_date:
  "inv_tags exampleTwoStatuses = Some [TagString ''in-transit'', TagString ''with-issue''] \<and>
   inv_date exampleTwoStatuses = Some 10000000000000 \<and>
   hasStatusTag exampleTwoStatuses InTransit \<and> hasStatusTag exampleTwoStatuses WithIssue \<and>
   statusTag exampleTwoStatuses = WithIssue \<and>
   decode exampleLib exampleTwoStatuses = Inl RangeError \<and>
   (case decode exampleLib (exampleTwoStatuses\<lparr>inv_date := Some 1715299200\<rparr>) of
      Inl e \<Rightarrow> False
    | Inr r \<Rightarrow> status r = WithIssue)"
  by code_simp

text \<open>
  Claim C5. The decoder returns exactly one record, with an id that is not empty (the
  synthetic id of the document when neither a custom field nor the notes give one), for
  every document whose date is valid: lemmas \<open>decode_total_on_valid_dates\<close> and
  \<open>decode_returns_iff\<close>. It does raise on a document whose date is beyond the range of
  \<^verbatim>\<open>Date\<close>: \<^verbatim>\<open>toISOString\<close> is called on the invalid date without the \<^verbatim>\<open>isValid\<close> test
  that \<^verbatim>\<open>parseShipmentNotes\<close> makes before the same call, and the exception ends the map
  over all documents.
\<close>

theorem C5_decode_throws_on_invalid_date:
  "decode exampleLib (exampleInvoice\<lparr>inv_date := Some 10000000000000\<rparr>) = Inl RangeError \<and>
   shipmentsOf exampleLib [exampleInvoice, exampleInvoice\<lparr>inv_date := Some 10000000000000\<rparr>]
     = Inl RangeError"
  by code_simp

text \<open>
  Claim C8. A document without tags and notes decodes to pending-confirmation, not
  confirmed, with the document's date or the current time as estimated delivery, when the
  date is valid: lemma \<open>decode_defaults\<close>. On such a document with a date beyond the range
  of \<^verbatim>\<open>Date\<close> the decoder raises, as for claim C5.
\<close>

theorem C8_defaults_throw_on_invalid_date:
  "noTagsNoNotes (exampleInvoice\<lparr>inv_tags := Some [], inv_notes := Some [],
                                  inv_date := Some 10000000000000\<rparr>) \<and>
   decode exampleLib (exampleInvoice\<lparr>inv_tags := Some [], inv_notes := Some [],
                                      inv_date := Some 10000000000000\<rparr>) = Inl RangeError"
  by code_simp

section \<open>Properties of the notes format\<close>

lemma jsSplit_nonempty: "jsSplit sep s \<noteq> []"
  by (induction sep s rule: jsSplit.induct) (auto split: list.splits)

lemma jsJoin_Cons: "jsJoin sep ((c # w) # ws) = c # jsJoin sep (w # ws)"
  by (cases ws) simp_all

lemma jsJoin_split: "jsJoin sep (jsSplit sep s) = s"
proof (induction sep s rule: jsSplit.induct)
  case (1 sep)
  then show ?case by simp
next
  case (2 sep c cs)
  show ?case
  proof (cases "sep \<noteq> [] \<and> prefix sep (c # cs)")
    case True
    then obtain rest where rest: "c # cs = sep @ rest" by (auto simp: prefix_def)
    then have d: "drop (length sep) (c # cs) = rest" by simp
    obtain w ws where w: "jsSplit sep rest = w # ws"
      using jsSplit_nonempty[of sep rest] by (cases "jsSplit sep rest") auto
    from 2(1)[OF True] d have j: "jsJoin sep (jsSplit sep rest) = rest" by simp
    from True d have "jsSplit sep (c # cs) = [] # jsSplit sep rest" by simp
    with w j have "jsJoin sep (jsSplit sep (c # cs)) = sep @ rest" by simp
    with rest show ?thesis by simp
  next
    case False
    obtain w ws where w: "jsSplit sep cs = w # ws"
      using jsSplit_nonempty[of sep cs] by (cases "jsSplit sep cs") auto
    from 2(2)[OF False] have j: "jsJoin sep (jsSplit sep cs) = cs" .
    from False w have "jsSplit sep (c # cs) = (c # w) # ws" by auto
    with w j show ?thesis by (simp add: jsJoin_Cons)
  qed
qed

lemma jsSplit_single: "c \<notin> set p \<Longrightarrow> jsSplit [c] p = [p]"
  by (induction p) auto

lemma jsSplit_line: "c \<notin> set p \<Longrightarrow> jsSplit [c] (p @ c # rest) = p # jsSplit [c] rest"
  by (induction p) auto

lemma jsSplit_lines:
  "ps \<noteq> [] \<Longrightarrow> \<forall>p\<in>set ps. c \<notin> set p \<Longrightarrow> jsSplit [c] (jsJoin [c] ps) = ps"
proof (induction ps)
  case Nil
  then show ?case by simp
next
  case (Cons x xs)
  show ?case
  proof (cases xs)
    case Nil
    with Cons.prems show ?thesis by (simp add: jsSplit_single)
  next
    case (Cons y ys)
    with Cons.IH Cons.prems have "jsSplit [c] (jsJoin [c] (y # ys)) = y # ys" by simp
    with Cons Cons.prems show ?thesis by (simp add: jsSplit_line)
  qed
qed

lemma jsSplit_key:
  "CHR '':'' \<notin> set k \<Longrightarrow> jsSplit '': '' (k @ '': '' @ v) = k # jsSplit '': '' v"
  by (induction k) auto


lemma parts_as_fields:
  "parseISO lib (estimatedDelivery updated) = Some d \<Longrightarrow>
   notesForHoldedParts lib updated confirmed actual issue =
     Inr (map fieldLine (noteFields (formatYMD lib d) updated confirmed actual issue))"
  by (simp add: notesForHoldedParts_def noteFields_def fieldLine_def split: option.splits)

lemma parseLine_keyed:
  assumes "CHR '':'' \<notin> set k"
  shows "parseLine lib parsed (k @ '': '' @ v) = assignKey lib parsed k (trim v)"
proof -
  have "jsSplit '': '' (k @ '': '' @ v) = k # jsSplit '': '' v"
    by (rule jsSplit_key[OF assms])
  then show ?thesis
    unfolding parseLine_def by (simp only: list.case jsJoin_split)
qed

lemma parseLine_fieldLine:
  "CHR '':'' \<notin> set (fst kv) \<Longrightarrow>
   parseLine lib parsed (fieldLine kv) = assignKey lib parsed (fst kv) (trim (snd kv))"
  unfolding fieldLine_def by (rule parseLine_keyed)

lemma fold_fields:
  "\<forall>kv\<in>set kvs. CHR '':'' \<notin> set (fst kv) \<Longrightarrow>
   foldl (parseLine lib) p (map fieldLine kvs) =
   foldl (\<lambda>p kv. assignKey lib p (fst kv) (trim (snd kv))) p kvs"
  by (induction kvs arbitrary: p) (simp_all add: parseLine_fieldLine)

lemma jsJoin_empty: "jsJoin sep (x # xs) = [] \<Longrightarrow> x = []"
  by (cases xs) simp_all

lemma parse_fields:
  assumes "kvs \<noteq> []"
    and "\<forall>kv\<in>set kvs. CHR '':'' \<notin> set (fst kv) \<and> lineFree (fst kv) \<and> lineFree (snd kv)"
  shows "parseShipmentNotes lib (Some (jsJoin [CHR 0x0A] (map fieldLine kvs))) =
     foldl (\<lambda>p kv. assignKey lib p (fst kv) (trim (snd kv))) emptyPartial kvs"
proof -
  let ?n = "jsJoin [CHR 0x0A] (map fieldLine kvs)"
  from assms(1) obtain kv rest where kvs: "kvs = kv # rest" by (cases kvs) auto
  have "fieldLine kv \<noteq> []" by (simp add: fieldLine_def)
  with kvs have ne: "?n \<noteq> []" using jsJoin_empty[of "[CHR 0x0A]" "fieldLine kv" "map fieldLine rest"]
    by auto
  have lf: "\<forall>p\<in>set (map fieldLine kvs). CHR 0x0A \<notin> set p"
    using assms(2) by (auto simp: fieldLine_def lineFree_def)
  have "jsSplit [CHR 0x0A] ?n = map fieldLine kvs"
    using assms(1) lf by (intro jsSplit_lines) simp_all
  with ne assms(2) show ?thesis
    by (simp add: parseShipmentNotes_def nonEmpty_def fold_fields)
qed


lemma digit_plain: "isDigit c \<Longrightarrow> \<not> isSpaceChar c \<and> c \<noteq> CHR 0x0A"
  by (auto simp: isDigit_def isSpaceChar_def)

lemma isYMD_plain:
  assumes "isYMD y"
  shows "plainText y"
proof -
  from assms obtain y1 y2 y3 y4 m1 m2 d1 d2 where
    y: "y = [y1, y2, y3, y4, CHR ''-'', m1, m2, CHR ''-'', d1, d2]"
    and dg: "isDigit y1" "isDigit y2" "isDigit y3" "isDigit y4" "isDigit m1" "isDigit m2"
      "isDigit d1" "isDigit d2"
    by (auto simp: isYMD_def split: list.splits)
  from dg have "lineFree y" unfolding y lineFree_def using digit_plain by auto
  moreover from dg(1,8) have "trim y = y" unfolding y trim_def using digit_plain by simp
  ultimately show ?thesis by (simp add: plainText_def)
qed

lemma literal_facts:
  "trim ''true'' = ''true''" "trim ''false'' = ''false''"
  "toLowerCase ''true'' = ''true''" "toLowerCase ''false'' \<noteq> ''true''"
  "lineFree ''true''" "lineFree ''false''"
  by code_simp+

lemma field_keys:
  "\<forall>kv\<in>set (noteFields ymd updated confirmed actual issue).
     CHR '':'' \<notin> set (fst kv) \<and> lineFree (fst kv)"
  by (auto simp: noteFields_def lineFree_def split: option.splits)


lemma field_values:
  assumes "plainRecord lib r" and "isYMD ymd"
  shows "\<forall>kv\<in>set (noteFields ymd r (isOrderConfirmed r) (actualDelivery r) (issueDescription r)).
           lineFree (snd kv)"
proof -
  from assms(2) have "lineFree ymd" using isYMD_plain by (simp add: plainText_def)
  with assms(1) show ?thesis
    by (auto simp: noteFields_def plainRecord_def plainText_def literal_facts nonEmpty_def
        split: option.splits if_splits)
qed

lemma readBack_cases:
  assumes "readBack lib e = Some e'"
  obtains d d' where "parseISO lib e = Some d" and "isYMD (formatYMD lib d)"
    and "parseISO lib (formatYMD lib d @ ''T00:00:00.000Z'') = Some d'"
    and "toISOString lib d' = e'"
  using assms by (auto simp: readBack_def split: option.splits if_splits)

lemma plain_fold:
  assumes pl: "plainRecord lib r"
    and d: "parseISO lib (estimatedDelivery r) = Some d"
    and y: "isYMD (formatYMD lib d)"
    and p: "parseISO lib (formatYMD lib d @ ''T00:00:00.000Z'') = Some d'"
  shows "foldl (\<lambda>p kv. assignKey lib p (fst kv) (trim (snd kv))) emptyPartial
           (noteFields (formatYMD lib d) r (isOrderConfirmed r) (actualDelivery r)
              (issueDescription r)) =
         \<lparr>p_title = Some (title r), p_origin = Some (origin r),
          p_destination = Some (destination r),
          p_estimatedDelivery = Some (toISOString lib d'),
          p_actualDelivery = actualDelivery r,
          p_issueDescription = nonEmpty (issueDescription r),
          p_id = Some (id_shipment r),
          p_isOrderConfirmed = Some (isOrderConfirmed r)\<rparr>"
proof -
  from pl have t: "trim (title r) = title r" "trim (origin r) = origin r"
    "trim (destination r) = destination r" "trim (id_shipment r) = id_shipment r"
    by (simp_all add: plainRecord_def plainText_def)
  from y have ty: "trim (formatYMD lib d) = formatYMD lib d"
    using isYMD_plain by (simp add: plainText_def)
  have est: "assignKey lib q ''Est. Delivery'' (formatYMD lib d) =
      q\<lparr>p_estimatedDelivery := Some (toISOString lib d')\<rparr>" for q
    by (simp add: assignKey_def y p)
  have act: "assignKey lib q ''Actual Delivery'' (trim a) = q\<lparr>p_actualDelivery := Some a\<rparr>"
    if "actualDelivery r = Some a" for q a
    using pl that
    by (auto simp: assignKey_def plainRecord_def plainText_def canonicalInstant_def
        split: option.splits)
  have iss: "assignKey lib q ''Issue'' (trim i) = q\<lparr>p_issueDescription := Some i\<rparr>"
    if "issueDescription r = Some i" for q i
    using pl that by (simp add: assignKey_def plainRecord_def plainText_def)
  have basic:
    "assignKey lib q ''Shipment Title'' v = q\<lparr>p_title := Some v\<rparr>"
    "assignKey lib q ''Origin'' v = q\<lparr>p_origin := Some v\<rparr>"
    "assignKey lib q ''Destination'' v = q\<lparr>p_destination := Some v\<rparr>"
    "assignKey lib q ''Internal Shipment ID'' v = q\<lparr>p_id := Some v\<rparr>"
    "assignKey lib q ''Order Confirmed'' v = q\<lparr>p_isOrderConfirmed := Some (toLowerCase v = ''true'')\<rparr>"
    for q v
    by (simp_all add: assignKey_def)
  have nonempty_act: "a \<noteq> []" if "actualDelivery r = Some a" for a
    using pl that by (simp add: plainRecord_def)
  show ?thesis
  proof (cases "actualDelivery r")
    case None
    show ?thesis
    proof (cases "nonEmpty (issueDescription r)")
      case None
      with \<open>actualDelivery r = None\<close> show ?thesis
        by (simp add: noteFields_def nonEmpty_def basic est t ty literal_facts emptyPartial_def)
    next
      case (Some i)
      then have "issueDescription r = Some i" by (auto simp: nonEmpty_def split: option.splits if_splits)
      with \<open>actualDelivery r = None\<close> Some show ?thesis
        by (simp add: noteFields_def nonEmpty_def basic est iss t ty literal_facts emptyPartial_def)
    qed
  next
    case (Some a)
    note a = this nonempty_act[OF this]
    show ?thesis
    proof (cases "nonEmpty (issueDescription r)")
      case None
      with a show ?thesis
        by (simp add: noteFields_def nonEmpty_def basic est act t ty literal_facts emptyPartial_def)
    next
      case (Some i)
      then have "issueDescription r = Some i" by (auto simp: nonEmpty_def split: option.splits if_splits)
      with a Some show ?thesis
        by (simp add: noteFields_def nonEmpty_def basic est act iss t ty literal_facts emptyPartial_def)
    qed
  qed
qed

lemma encode_parse:
  assumes pl: "plainRecord lib r"
    and rb: "readBack lib (estimatedDelivery r) = Some e'"
  shows "\<exists>notes. encodeNotes lib r = Inr notes \<and>
     parseShipmentNotes lib (Some notes) =
         \<lparr>p_title = Some (title r), p_origin = Some (origin r),
          p_destination = Some (destination r),
          p_estimatedDelivery = Some e',
          p_actualDelivery = actualDelivery r,
          p_issueDescription = nonEmpty (issueDescription r),
          p_id = Some (id_shipment r),
          p_isOrderConfirmed = Some (isOrderConfirmed r)\<rparr>"
proof -
  from rb obtain d d' where d: "parseISO lib (estimatedDelivery r) = Some d"
    and y: "isYMD (formatYMD lib d)"
    and p: "parseISO lib (formatYMD lib d @ ''T00:00:00.000Z'') = Some d'"
    and e: "toISOString lib d' = e'"
    by (rule readBack_cases)
  let ?kvs = "noteFields (formatYMD lib d) r (isOrderConfirmed r) (actualDelivery r)
                (issueDescription r)"
  let ?notes = "jsJoin [CHR 0x0A] (map fieldLine ?kvs)"
  have enc: "encodeNotes lib r = Inr ?notes"
    by (simp add: encodeNotes_def notesForHolded_def parts_as_fields[OF d])
  have ne: "?kvs \<noteq> []" by (simp add: noteFields_def)
  have ok: "\<forall>kv\<in>set ?kvs. CHR '':'' \<notin> set (fst kv) \<and> lineFree (fst kv) \<and> lineFree (snd kv)"
    using field_keys[of "formatYMD lib d" r "isOrderConfirmed r" "actualDelivery r" "issueDescription r"]
      field_values[OF pl y] by blast
  from parse_fields[OF ne ok, of lib] plain_fold[OF pl d y p] enc e show ?thesis by simp
qed

lemma titleAndId_roundTrip:
  assumes "shipmentIdCustomField invoice = None" and "t \<noteq> []" and "i \<noteq> []"
    and "p_title notesData = Some t" and "p_id notesData = Some i"
  shows "titleAndId invoice notesData = (t, i)"
  using assms by (simp add: titleAndId_def shipmentIdCustomField_def nonEmpty_def Let_def)

text \<open>
  What encoding and decoding do to a plain record. When the estimated delivery is read
  back as \<open>e'\<close>, and the document has no custom field \<^verbatim>\<open>shipment_id\<close>, a valid date, and no
  tag order-confirmed unless the record is confirmed: encoding the record succeeds, and
  decoding the document that carries the encoded notes gives a record with the same
  title, origin, destination, id, confirmation flag and actual delivery, with the issue
  text when it is not empty, and with the estimated delivery \<open>e'\<close>.
\<close>

lemma encode_decode:
  assumes pl: "plainRecord lib r"
    and rb: "readBack lib (estimatedDelivery r) = Some e'" and ne': "e' \<noteq> []"
    and cf: "shipmentIdCustomField invoice = None"
    and vd: "validDate invoice"
    and tg: "hasConfirmedTag invoice \<longrightarrow> isOrderConfirmed r"
  shows "\<exists>notes r'. encodeNotes lib r = Inr notes \<and>
      decode lib (invoice\<lparr>inv_notes := Some notes\<rparr>) = Inr r' \<and>
      title r' = title r \<and> origin r' = origin r \<and> destination r' = destination r \<and>
      estimatedDelivery r' = e' \<and> id_shipment r' = id_shipment r \<and>
      isOrderConfirmed r' = isOrderConfirmed r \<and> actualDelivery r' = actualDelivery r \<and>
      issueDescription r' = nonEmpty (issueDescription r)"
proof -
  from encode_parse[OF pl rb] obtain ns where enc: "encodeNotes lib r = Inr ns"
    and ps: "parseShipmentNotes lib (Some ns) =
         \<lparr>p_title = Some (title r), p_origin = Some (origin r),
          p_destination = Some (destination r),
          p_estimatedDelivery = Some e',
          p_actualDelivery = actualDelivery r,
          p_issueDescription = nonEmpty (issueDescription r),
          p_id = Some (id_shipment r),
          p_isOrderConfirmed = Some (isOrderConfirmed r)\<rparr>" by blast
  let ?inv = "invoice\<lparr>inv_notes := Some ns\<rparr>"
  from vd have "validDate ?inv" by (simp add: validDate_def)
  then obtain c where c: "invoiceDateOrNow lib ?inv = Inr c" using invoiceDate_valid by blast
  from pl have ne: "title r \<noteq> []" "id_shipment r \<noteq> []" "origin r \<noteq> []" "destination r \<noteq> []"
    by (simp_all add: plainRecord_def)
  from cf have cf': "shipmentIdCustomField ?inv = None" by (simp add: shipmentIdCustomField_def)
  have ti: "titleAndId ?inv (parseShipmentNotes lib (inv_notes ?inv)) = (title r, id_shipment r)"
    by (rule titleAndId_roundTrip[OF cf' ne(1,2)]) (simp_all add: ps)
  have tag: "(JsString ''order-confirmed'' \<in> set (normalizedInvTags ?inv)) = hasConfirmedTag invoice"
    by (simp add: hasConfirmedTag_def normalizedInvTags_def invTags_def)
  have "decode lib ?inv = Inr
     \<lparr>id_shipment = id_shipment r, title = title r, status = statusTag ?inv,
      products = map productOf (case inv_products ?inv of Some ps \<Rightarrow> ps | None \<Rightarrow> []),
      estimatedDelivery = e', actualDelivery = actualDelivery r,
      issueDescription = nonEmpty (issueDescription r), origin = origin r,
      destination = destination r,
      isOrderConfirmed = (hasConfirmedTag invoice \<or> isOrderConfirmed r),
      createdAt = c, holdedInvoiceId = Some (inv_id ?inv), tags = invTags ?inv\<rparr>"
    unfolding decode_valid[OF c] ti tag by (simp add: ps ne ne' nonEmpty_def)
  with enc tg show ?thesis by auto
qed

text \<open>
  So a record round-trips when it is plain and its estimated delivery is read back as
  itself, which asks for an estimated delivery at midnight UTC and a browser that prints
  that instant as the same day: one at UTC or east of it. The example is in UTC.
\<close>

lemma round_trip:
  assumes rt: "roundTripRecord lib r"
    and cf: "shipmentIdCustomField invoice = None"
    and vd: "validDate invoice"
    and tg: "hasConfirmedTag invoice \<longrightarrow> isOrderConfirmed r"
  shows "\<exists>notes r'. encodeNotes lib r = Inr notes \<and>
      decode lib (invoice\<lparr>inv_notes := Some notes\<rparr>) = Inr r' \<and>
      title r' = title r \<and> origin r' = origin r \<and> destination r' = destination r \<and>
      estimatedDelivery r' = estimatedDelivery r \<and> id_shipment r' = id_shipment r \<and>
      isOrderConfirmed r' = isOrderConfirmed r \<and> actualDelivery r' = actualDelivery r \<and>
      issueDescription r' = nonEmpty (issueDescription r)"
proof -
  from rt have pl: "plainRecord lib r" and ne: "estimatedDelivery r \<noteq> []"
    and rb: "readBack lib (estimatedDelivery r) = Some (estimatedDelivery r)"
    by (simp_all add: roundTripRecord_def)
  from encode_decode[OF pl rb ne cf vd tg] show ?thesis .
qed

lemma round_trip_example:
  "roundTripRecord exampleLib exampleDelivered \<and>
   shipmentIdCustomField exampleInvoice = None \<and> validDate exampleInvoice \<and>
   \<not> hasConfirmedTag exampleInvoice \<and>
   (\<exists>ns r'. encodeNotes exampleLib exampleDelivered = Inr ns \<and>
      decode exampleLib (exampleInvoice\<lparr>inv_notes := Some ns\<rparr>) = Inr r' \<and>
      title r' = ''Tyres'' \<and> estimatedDelivery r' = ''2024-05-10T00:00:00.000Z'' \<and>
      actualDelivery r' = Some ''2024-05-12T09:30:00.000Z'' \<and>
      issueDescription r' = Some ''box: crushed'' \<and> isOrderConfirmed r')"
proof -
  have a: "roundTripRecord exampleLib exampleDelivered" by code_simp
  have b: "shipmentIdCustomField exampleInvoice = None" by code_simp
  have c: "validDate exampleInvoice" by code_simp
  have d: "\<not> hasConfirmedTag exampleInvoice" by code_simp
  have e: "title exampleDelivered = ''Tyres''"
    "estimatedDelivery exampleDelivered = ''2024-05-10T00:00:00.000Z''"
    "actualDelivery exampleDelivered = Some ''2024-05-12T09:30:00.000Z''"
    "nonEmpty (issueDescription exampleDelivered) = Some ''box: crushed''"
    "isOrderConfirmed exampleDelivered"
    by (simp_all add: exampleDelivered_def exampleShipment_def nonEmpty_def)
  from d have "hasConfirmedTag exampleInvoice \<longrightarrow> isOrderConfirmed exampleDelivered" by simp
  from round_trip[OF a b c this] e have
    "\<exists>ns r'. encodeNotes exampleLib exampleDelivered = Inr ns \<and>
      decode exampleLib (exampleInvoice\<lparr>inv_notes := Some ns\<rparr>) = Inr r' \<and>
      title r' = ''Tyres'' \<and> estimatedDelivery r' = ''2024-05-10T00:00:00.000Z'' \<and>
      actualDelivery r' = Some ''2024-05-12T09:30:00.000Z'' \<and>
      issueDescription r' = Some ''box: crushed'' \<and> isOrderConfirmed r'"
    by (elim exE conjE, intro exI conjI) simp_all
  with a b c d show ?thesis by blast
qed

text \<open>
  By design the notes keep the day of the estimated delivery only, and the decoder trims
  every value: the record below has no line feed in any text, its title begins with a
  space and its estimated delivery is at 09:30; the decoded title has lost the space and
  the decoded estimated delivery is the midnight of the day.
\<close>

lemma round_trip_of_untrimmed_title_and_time_of_day:
  "lineFree (title (exampleShipment\<lparr>title := '' Tyres'',
        estimatedDelivery := ''2024-05-12T09:30:00.000Z''\<rparr>)) \<and>
   (case encodeNotes exampleLib (exampleShipment\<lparr>title := '' Tyres'',
        estimatedDelivery := ''2024-05-12T09:30:00.000Z''\<rparr>) of
      Inl e \<Rightarrow> False
    | Inr ns \<Rightarrow>
        (case decode exampleLib (exampleInvoice\<lparr>inv_notes := Some ns\<rparr>) of
           Inl e \<Rightarrow> False
         | Inr r' \<Rightarrow> title r' = ''Tyres'' \<and> estimatedDelivery r' = ''2024-05-12T00:00:00.000Z''))"
  by code_simp

text \<open>
  A record whose estimated delivery is read back as another text does not round-trip.
  Where the browser is west of UTC that is every record with an estimated delivery at
  midnight UTC, the instant the decoder gives for a day: the handler prints the day of
  the local time (\<^verbatim>\<open>format\<close>), which for a midnight UTC is the day before, and the
  decoder reads that day as its midnight UTC.
\<close>

lemma no_round_trip_when_read_back_differs:
  assumes "parseISO lib (estimatedDelivery r) = Some d"
    and "parseISO lib (formatYMD lib d @ ''T00:00:00.000Z'') = Some d'"
    and "toISOString lib d' \<noteq> estimatedDelivery r"
  shows "\<not> roundTripRecord lib r"
  using assms by (auto simp: roundTripRecord_def readBack_def)

text \<open>
  Claim C6. The round trip holds for a plain record whose estimated delivery is read back
  as itself (lemma \<open>round_trip\<close>). It fails on records the decoder itself produces, in a
  browser west of UTC. The document below carries the notes of a new shipment with the
  estimated delivery 10 May 2024; the decoder gives a plain record with the estimated
  delivery at midnight UTC of that day. In a browser five hours west of UTC the handler
  encodes this record with the line Est. Delivery: 2024-05-09, and decoding the encoded
  notes gives the estimated delivery 9 May 2024: every update moves it back by a day.
  The other fields come back as they were.
\<close>

theorem C6_estimated_delivery_moves_back_west_of_utc:
  "(case decode westLib exampleStored of
      Inl e \<Rightarrow> False
    | Inr r \<Rightarrow>
        plainRecord westLib r \<and>
        title r = ''Tyres'' \<and> origin r = ''Factory A'' \<and> destination r = ''Track B'' \<and>
        id_shipment r = ''shp_1'' \<and> \<not> isOrderConfirmed r \<and> actualDelivery r = None \<and>
        issueDescription r = None \<and>
        estimatedDelivery r = ''2024-05-10T00:00:00.000Z'' \<and>
        (case encodeNotes westLib r of
           Inl e \<Rightarrow> False
         | Inr ns \<Rightarrow>
             ns = jsJoin [CHR 0x0A]
                    [''Shipment Title: Tyres'', ''Origin: Factory A'', ''Destination: Track B'',
                     ''Est. Delivery: 2024-05-09'', ''Internal Shipment ID: shp_1'',
                     ''Order Confirmed: false''] \<and>
             (case decode westLib (exampleStored\<lparr>inv_notes := Some ns\<rparr>) of
                Inl e \<Rightarrow> False
              | Inr r' \<Rightarrow>
                  estimatedDelivery r' = ''2024-05-09T00:00:00.000Z'' \<and>
                  estimatedDelivery r' \<noteq> estimatedDelivery r \<and>
                  title r' = title r \<and> origin r' = origin r \<and>
                  destination r' = destination r \<and> id_shipment r' = id_shipment r \<and>
                  isOrderConfirmed r' = isOrderConfirmed r \<and>
                  actualDelivery r' = actualDelivery r \<and>
                  issueDescription r' = issueDescription r)))"
  by code_simp

section \<open>Properties of writing a document\<close>



text \<open>
  The requests that reach \<^verbatim>\<open>onUpdateStatus\<close>: an item of the menu of logistics, towards
  pending-confirmation or cancelled; Confirm Order, on a pending shipment that is not
  confirmed; Confirm Receipt, on a shipment in transit; and the issue dialog, on a
  shipment in transit or pending.
\<close>

lemma planned_cases:
  assumes "planTransition role r target issueText = Inr (OnUpdateStatus i newStatus issue ts)"
  shows "i = id_shipment r \<and> newStatus = target \<and> status r \<noteq> Cancelled \<and>
    ((role = Logistics \<and> target \<in> {PendingConfirmation, Cancelled} \<and> target \<noteq> status r \<and>
        issue = None \<and>
        ts = [statusId target] @
             (if target = PendingConfirmation \<and> status r = WithIssue \<and> isOrderConfirmed r
              then [''order-confirmed''] else [])) \<or>
     (role = TrackTeam \<and> status r = PendingConfirmation \<and> \<not> isOrderConfirmed r \<and>
        target = InTransit \<and> issue = None \<and> ts = [''in-transit'', ''order-confirmed'']) \<or>
     (role = TrackTeam \<and> status r = InTransit \<and> target = Delivered \<and> issue = None \<and>
        ts = [''delivered'', ''order-confirmed'']) \<or>
     (role = TrackTeam \<and> (status r = InTransit \<or> status r = PendingConfirmation) \<and>
        target = WithIssue \<and> trim issueText \<noteq> [] \<and> issue = Some issueText \<and>
        ts = [''with-issue''] @ (if isOrderConfirmed r then [''order-confirmed''] else [])))"
  using assms
  by (cases role; cases target; cases "status r")
     (auto simp: card_defs Let_def split: if_splits)

lemma requestedUpdate_iff:
  "(requestedUpdate lib role r target issueText = Some r') =
   (\<exists>i issue ts. planTransition role r target issueText = Inr (OnUpdateStatus i target issue ts) \<and>
      r' = updatedShipmentForLocalState lib role r target issue (Some ts))"
proof
  assume a: "requestedUpdate lib role r target issueText = Some r'"
  then obtain i newStatus issue ts where
    p: "planTransition role r target issueText = Inr (OnUpdateStatus i newStatus issue ts)"
    and r': "r' = updatedShipmentForLocalState lib role r newStatus issue (Some ts)"
    by (auto simp: requestedUpdate_def split: sum.splits CardEffect.splits)
  from planned_cases[OF p] have "newStatus = target" by simp
  with p r' show "\<exists>i issue ts.
      planTransition role r target issueText = Inr (OnUpdateStatus i target issue ts) \<and>
      r' = updatedShipmentForLocalState lib role r target issue (Some ts)" by blast
next
  assume "\<exists>i issue ts.
      planTransition role r target issueText = Inr (OnUpdateStatus i target issue ts) \<and>
      r' = updatedShipmentForLocalState lib role r target issue (Some ts)"
  then show "requestedUpdate lib role r target issueText = Some r'"
    by (auto simp: requestedUpdate_def)
qed

lemma update_fields:
  "status (updatedShipmentForLocalState lib role r newStatus issue tgs) = newStatus"
  "isOrderConfirmed (updatedShipmentForLocalState lib role r newStatus issue tgs) =
     isConfirmed r newStatus tgs"
  "actualDelivery (updatedShipmentForLocalState lib role r newStatus issue tgs) =
     actualDeliveryTimestamp lib role r newStatus"
  by (simp_all add: updatedShipmentForLocalState_def)

text \<open>
  The invariant: every requested update keeps it, so every reachable record has it. In
  particular no reachable record is in transit with an actual delivery, the one state in
  which the assignment of \<^verbatim>\<open>actualDeliveryTimestamp\<close>, which does not look at the recorded
  value, would replace it.
\<close>

lemma deliveryKept_update:
  assumes k: "deliveryKept r"
    and u: "requestedUpdate lib role r target issueText = Some r'"
  shows "deliveryKept r'"
proof -
  from u obtain i issue ts where
    p: "planTransition role r target issueText = Inr (OnUpdateStatus i target issue ts)"
    and r': "r' = updatedShipmentForLocalState lib role r target issue (Some ts)"
    unfolding requestedUpdate_iff by blast
  from planned_cases[OF p] k show ?thesis
    unfolding r' deliveryKept_def update_fields actualDeliveryTimestamp_def isConfirmed_def
    by (auto split: if_splits)
qed

lemma reachable_deliveryKept: "reachable r \<Longrightarrow> deliveryKept r"
proof (induction rule: reachable.induct)
  case (undelivered r)
  then show ?case by (simp add: deliveryKept_def)
next
  case (updated r lib role target issueText r')
  then show ?case using deliveryKept_update by blast
qed

lemma reachable_in_transit:
  "reachable r \<Longrightarrow> status r = InTransit \<Longrightarrow> actualDelivery r = None"
  using reachable_deliveryKept[of r] by (auto simp: deliveryKept_def)







text \<open>
  The assignment of \<^verbatim>\<open>actualDeliveryTimestamp\<close> tests the new status, the old status and
  the role, not the recorded value; what keeps it from replacing one is the invariant. A
  record that no update produces, in transit with an actual delivery recorded, as the
  decoder gives for a document tagged in-transit whose notes carry the line, gets the
  value replaced when the track team confirms the receipt.
\<close>

lemma record_in_transit_with_actual_delivery:
  "(case decode exampleLib
      (exampleInvoice\<lparr>inv_tags := Some [TagString ''intransit''],
         inv_notes := Some ''Actual Delivery: 2024-05-12T09:30:00.000Z''\<rparr>) of
      Inl e \<Rightarrow> False
    | Inr s \<Rightarrow>
        status s = InTransit \<and> actualDelivery s = Some ''2024-05-12T09:30:00.000Z'' \<and>
        \<not> deliveryKept s \<and>
        planTransition TrackTeam s Delivered [] =
          Inr (OnUpdateStatus ''inv_inv1'' Delivered None [''delivered'', ''order-confirmed'']) \<and>
        actualDelivery
          (updatedShipmentForLocalState exampleLib TrackTeam s Delivered None
             (Some [''delivered'', ''order-confirmed''])) = Some ''2024-06-01T12:00:00.000Z'')"
  by code_simp

end
